theory Spec2Isabelle
  imports Main
begin

section \<open>JavaScript values used by the volume server\<close>

subsection \<open>Numbers\<close>

text \<open>
  A number is \<^verbatim>\<open>NaN\<close>, an infinity, the integer \<open>Num n\<close>, or \<open>Dec m k\<close>, which stands for
  \<open>m / 10 ^ k\<close> and is used for the numbers that are not integers. Every number a JSON
  document or a numeric string can spell has this form, and sums, differences, minima and
  maxima of such numbers have it again. The arithmetic here is exact; IEEE doubles agree with
  it as long as no rounding occurs (for integers, below \<open>2 ^ 53\<close>).
\<close>

datatype jsnum = NaN | Num int | Dec int nat | PosInf | NegInf

text \<open>The number \<open>m / 10 ^ k\<close>, as an integer where it is one.\<close>

fun decimal :: "int \<Rightarrow> nat \<Rightarrow> jsnum" where
  "decimal m 0 = Num m"
| "decimal m (Suc k) = (if m mod 10 = 0 then decimal (m div 10) k else Dec m (Suc k))"

fun finite_parts :: "jsnum \<Rightarrow> (int \<times> nat) option" where
  "finite_parts (Num n) = Some (n, 0)"
| "finite_parts (Dec m k) = Some (m, k)"
| "finite_parts _ = None"

text \<open>The order of two numbers neither of which is \<^verbatim>\<open>NaN\<close>.\<close>

fun num_le :: "jsnum \<Rightarrow> jsnum \<Rightarrow> bool" where
  "num_le NegInf y = True"
| "num_le x PosInf = True"
| "num_le PosInf y = False"
| "num_le x NegInf = False"
| "num_le x y =
     (case (finite_parts x, finite_parts y) of
        (Some (a, j), Some (b, k)) \<Rightarrow> a * 10 ^ k \<le> b * 10 ^ j
      | _ \<Rightarrow> False)"

text \<open>\<^verbatim>\<open>Math.min(a, b)\<close> and \<^verbatim>\<open>Math.max(a, b)\<close> on numbers: \<^verbatim>\<open>NaN\<close> if either argument is.\<close>

fun Math_min :: "jsnum \<Rightarrow> jsnum \<Rightarrow> jsnum" where
  "Math_min (Num a) (Num b) = Num (min a b)"
| "Math_min NaN y = NaN"
| "Math_min x NaN = NaN"
| "Math_min x y = (if num_le x y then x else y)"

fun Math_max :: "jsnum \<Rightarrow> jsnum \<Rightarrow> jsnum" where
  "Math_max (Num a) (Num b) = Num (max a b)"
| "Math_max NaN y = NaN"
| "Math_max x NaN = NaN"
| "Math_max x y = (if num_le x y then y else x)"

text \<open>\<^verbatim>\<open>a + b\<close> and \<^verbatim>\<open>a - b\<close> on numbers.\<close>

fun js_plus :: "jsnum \<Rightarrow> jsnum \<Rightarrow> jsnum" where
  "js_plus (Num a) (Num b) = Num (a + b)"
| "js_plus NaN y = NaN"
| "js_plus x NaN = NaN"
| "js_plus PosInf NegInf = NaN"
| "js_plus NegInf PosInf = NaN"
| "js_plus PosInf y = PosInf"
| "js_plus x PosInf = PosInf"
| "js_plus NegInf y = NegInf"
| "js_plus x NegInf = NegInf"
| "js_plus x y =
     (case (finite_parts x, finite_parts y) of
        (Some (a, j), Some (b, k)) \<Rightarrow>
          decimal (a * 10 ^ (max j k - j) + b * 10 ^ (max j k - k)) (max j k)
      | _ \<Rightarrow> NaN)"

fun js_negate :: "jsnum \<Rightarrow> jsnum" where
  "js_negate NaN = NaN"
| "js_negate (Num n) = Num (- n)"
| "js_negate (Dec m k) = Dec (- m) k"
| "js_negate PosInf = NegInf"
| "js_negate NegInf = PosInf"

fun js_minus :: "jsnum \<Rightarrow> jsnum \<Rightarrow> jsnum" where
  "js_minus (Num a) (Num b) = Num (a - b)"
| "js_minus x y = js_plus x (js_negate y)"

text \<open>Strict inequality \<^verbatim>\<open>a !== b\<close> of two numbers: \<^verbatim>\<open>NaN\<close> differs from everything,
  itself included.\<close>

fun strict_neq :: "jsnum \<Rightarrow> jsnum \<Rightarrow> bool" where
  "strict_neq (Num a) (Num b) = (a \<noteq> b)"
| "strict_neq NaN y = True"
| "strict_neq x NaN = True"
| "strict_neq x y = (\<not> (num_le x y \<and> num_le y x))"

subsection \<open>Strings\<close>

text \<open>A string is the list of the bytes of its UTF-8 encoding. A thrown \<^verbatim>\<open>Error\<close> is
  kept with its \<^verbatim>\<open>message\<close>.\<close>

datatype js_error = Error string

definition dquote :: string where
  "dquote = [CHR 0x22]"

definition squote :: string where
  "squote = [CHR 0x27]"

text \<open>
  ECMAScript's white space and line terminators, each as its UTF-8 bytes: tab, line feed,
  vertical tab, form feed, carriage return, space, U+00A0, U+1680, U+2000 to U+200A, U+2028,
  U+2029, U+202F, U+205F, U+3000 and U+FEFF.
\<close>

definition space_codes :: "string list" where
  "space_codes =
     [[CHR 0x09], [CHR 0x0A], [CHR 0x0B], [CHR 0x0C], [CHR 0x0D], [CHR 0x20],
      [CHR 0xC2, CHR 0xA0], [CHR 0xE1, CHR 0x9A, CHR 0x80],
      [CHR 0xE2, CHR 0x80, CHR 0x80], [CHR 0xE2, CHR 0x80, CHR 0x81],
      [CHR 0xE2, CHR 0x80, CHR 0x82], [CHR 0xE2, CHR 0x80, CHR 0x83],
      [CHR 0xE2, CHR 0x80, CHR 0x84], [CHR 0xE2, CHR 0x80, CHR 0x85],
      [CHR 0xE2, CHR 0x80, CHR 0x86], [CHR 0xE2, CHR 0x80, CHR 0x87],
      [CHR 0xE2, CHR 0x80, CHR 0x88], [CHR 0xE2, CHR 0x80, CHR 0x89],
      [CHR 0xE2, CHR 0x80, CHR 0x8A], [CHR 0xE2, CHR 0x80, CHR 0xA8],
      [CHR 0xE2, CHR 0x80, CHR 0xA9], [CHR 0xE2, CHR 0x80, CHR 0xAF],
      [CHR 0xE2, CHR 0x81, CHR 0x9F], [CHR 0xE3, CHR 0x80, CHR 0x80],
      [CHR 0xEF, CHR 0xBB, CHR 0xBF]]"

text \<open>The length of the first of the codes that the string starts with, 0 if there is none.\<close>

fun code_length :: "string list \<Rightarrow> string \<Rightarrow> nat" where
  "code_length [] s = 0"
| "code_length (w # ws) s = (if take (length w) s = w then length w else code_length ws s)"

text \<open>The string without the codes it starts with.\<close>

fun skip_codes :: "string list \<Rightarrow> string \<Rightarrow> string" where
  "skip_codes codes [] = []"
| "skip_codes codes (c # cs) =
     (case code_length codes (c # cs) of
        0 \<Rightarrow> c # cs
      | Suc n \<Rightarrow> skip_codes codes (drop n cs))"

text \<open>\<^verbatim>\<open>String.prototype.trim\<close>: white space is taken off both ends.\<close>

definition trim :: "string \<Rightarrow> string" where
  "trim s = rev (skip_codes (map rev space_codes) (rev (skip_codes space_codes s)))"

text \<open>The value of a character as a digit, if it is one (\<^verbatim>\<open>0-9\<close>, \<^verbatim>\<open>a-z\<close>, \<^verbatim>\<open>A-Z\<close>).\<close>

definition digit_val :: "char \<Rightarrow> nat option" where
  "digit_val c =
     (let n = (of_char c :: nat) in
      if 48 \<le> n \<and> n \<le> 57 then Some (n - 48)
      else if 97 \<le> n \<and> n \<le> 122 then Some (n - 87)
      else if 65 \<le> n \<and> n \<le> 90 then Some (n - 55)
      else None)"

definition is_digit_in :: "nat \<Rightarrow> char \<Rightarrow> bool" where
  "is_digit_in radix c = (case digit_val c of None \<Rightarrow> False | Some d \<Rightarrow> d < radix)"

definition digits_value :: "nat \<Rightarrow> string \<Rightarrow> nat" where
  "digits_value radix z = foldl (\<lambda>a c. a * radix + (case digit_val c of None \<Rightarrow> 0 | Some d \<Rightarrow> d)) 0 z"

text \<open>
  \<^verbatim>\<open>parseInt(string)\<close> with no radix argument: leading white space is skipped, a sign is
  read, a \<^verbatim>\<open>0x\<close> prefix selects radix 16, and the longest prefix of digits is converted;
  with no digit the result is \<^verbatim>\<open>NaN\<close>.
\<close>

definition parseInt :: "string \<Rightarrow> jsnum" where
  "parseInt inp =
     (let s1 = skip_codes space_codes inp;
          neg = (take 1 s1 = ''-'');
          s2 = (if take 1 s1 = ''-'' \<or> take 1 s1 = ''+'' then drop 1 s1 else s1);
          hex = (take 2 s2 = ''0x'' \<or> take 2 s2 = ''0X'');
          radix = (if hex then 16 else 10);
          s3 = (if hex then drop 2 s2 else s2);
          z = takeWhile (is_digit_in radix) s3
      in if z = [] then NaN
         else Num (if neg then - int (digits_value radix z) else int (digits_value radix z)))"

text \<open>Decimal digits of a natural number.\<close>

fun digits_of_nat :: "nat \<Rightarrow> string" where
  "digits_of_nat n =
     (if n < 10 then [char_of (48 + n)]
      else digits_of_nat (n div 10) @ [char_of (48 + n mod 10)])"

declare digits_of_nat.simps [simp del]

text \<open>
  \<^verbatim>\<open>Number.prototype.toString\<close>, as a template literal applies it, for the finite number
  \<open>m / 10 ^ k\<close>. With \<open>d\<close> the digits without the zeros at the end and \<open>n\<close> the position of
  the decimal point counted from the first digit, the digits are padded with zeros, split
  by a point, or put after \<^verbatim>\<open>0.\<close> and zeros, and outside \<open>-6 < n \<le> 21\<close> written with an
  exponent.
\<close>

definition finite_to_string :: "int \<Rightarrow> nat \<Rightarrow> string" where
  "finite_to_string m k =
     (if m = 0 then ''0''
      else
        let d0 = digits_of_nat (nat \<bar>m\<bar>);
            d = rev (dropWhile (\<lambda>c. c = CHR ''0'') (rev d0));
            n = int (length d0) - int k;
            body =
              (if int (length d) \<le> n \<and> n \<le> 21
                 then d @ replicate (nat (n - int (length d))) (CHR ''0'')
               else if 0 < n \<and> n \<le> 21
                 then take (nat n) d @ ''.'' @ drop (nat n) d
               else if - 6 < n \<and> n \<le> 0
                 then ''0.'' @ replicate (nat (- n)) (CHR ''0'') @ d
               else (if length d = 1 then d else take 1 d @ ''.'' @ drop 1 d)
                      @ ''e'' @ (if n - 1 < 0 then ''-'' else ''+'')
                      @ digits_of_nat (nat \<bar>n - 1\<bar>))
        in if m < 0 then ''-'' @ body else body)"

definition number_to_string :: "jsnum \<Rightarrow> string" where
  "number_to_string x =
     (case x of
        NaN \<Rightarrow> ''NaN''
      | Num n \<Rightarrow> finite_to_string n 0
      | Dec m k \<Rightarrow> finite_to_string m k
      | PosInf \<Rightarrow> ''Infinity''
      | NegInf \<Rightarrow> ''-Infinity'')"

text \<open>
  A decimal literal without its sign: digits, a point and more digits, an exponent; at least
  one digit before the exponent. The result is the number written by the digits and the
  power of ten it is multiplied with.
\<close>

definition decimal_literal :: "string \<Rightarrow> (nat \<times> int) option" where
  "decimal_literal b =
     (let ip = takeWhile (is_digit_in 10) b;
          r1 = dropWhile (is_digit_in 10) b;
          has_dot = (take 1 r1 = ''.'');
          fp = (if has_dot then takeWhile (is_digit_in 10) (drop 1 r1) else []);
          r2 = (if has_dot then dropWhile (is_digit_in 10) (drop 1 r1) else r1);
          has_exp = (take 1 r2 = ''e'' \<or> take 1 r2 = ''E'');
          r3 = drop 1 r2;
          ed = (if take 1 r3 = ''-'' \<or> take 1 r3 = ''+'' then drop 1 r3 else r3)
      in if ip = [] \<and> fp = [] then None
         else if has_exp then
           (if ed \<noteq> [] \<and> list_all (is_digit_in 10) ed
            then Some (digits_value 10 (ip @ fp),
                       (if take 1 r3 = ''-'' then - int (digits_value 10 ed)
                        else int (digits_value 10 ed)) - int (length fp))
            else None)
         else if r2 = [] then Some (digits_value 10 (ip @ fp), - int (length fp))
         else None)"

text \<open>The digits after a \<^verbatim>\<open>0x\<close>, \<^verbatim>\<open>0o\<close> or \<^verbatim>\<open>0b\<close> prefix.\<close>

definition radix_literal :: "nat \<Rightarrow> string \<Rightarrow> jsnum" where
  "radix_literal radix ds =
     (if ds \<noteq> [] \<and> list_all (is_digit_in radix) ds then Num (int (digits_value radix ds))
      else NaN)"

text \<open>
  \<^verbatim>\<open>ToNumber\<close> of a string: white space at both ends is ignored, the empty string is 0,
  a literal with a radix prefix has no sign, \<^verbatim>\<open>Infinity\<close> and a decimal literal may have
  one, and everything else is \<^verbatim>\<open>NaN\<close>.
\<close>

definition StringToNumber :: "string \<Rightarrow> jsnum" where
  "StringToNumber inp =
     (let s = trim inp;
          neg = (take 1 s = ''-'');
          body = (if take 1 s = ''-'' \<or> take 1 s = ''+'' then drop 1 s else s)
      in if s = [] then Num 0
         else if take 2 s = ''0x'' \<or> take 2 s = ''0X'' then radix_literal 16 (drop 2 s)
         else if take 2 s = ''0o'' \<or> take 2 s = ''0O'' then radix_literal 8 (drop 2 s)
         else if take 2 s = ''0b'' \<or> take 2 s = ''0B'' then radix_literal 2 (drop 2 s)
         else if body = ''Infinity'' then (if neg then NegInf else PosInf)
         else (case decimal_literal body of
                 None \<Rightarrow> NaN
               | Some (m, e) \<Rightarrow>
                   if 0 \<le> e then Num ((if neg then - int m else int m) * 10 ^ nat e)
                   else decimal (if neg then - int m else int m) (nat (- e))))"

text \<open>\<^verbatim>\<open>String.prototype.includes\<close>.\<close>

fun str_includes :: "string \<Rightarrow> string \<Rightarrow> bool" where
  "str_includes [] p = (p = [])"
| "str_includes (c # cs) p = (take (length p) (c # cs) = p \<or> str_includes cs p)"

text \<open>
  The first match of \<^verbatim>\<open>/\[(\d+)%\]/\<close>: its capture group. After an opening bracket the
  greedy run of decimal digits must be non-empty and be followed by \<^verbatim>\<open>%]\<close>.
\<close>

fun match_volume :: "string \<Rightarrow> string option" where
  "match_volume [] = None"
| "match_volume (c # cs) =
     (if c = CHR ''['' \<and> takeWhile (is_digit_in 10) cs \<noteq> []
         \<and> take 2 (dropWhile (is_digit_in 10) cs) = ''%]''
      then Some (takeWhile (is_digit_in 10) cs)
      else match_volume cs)"

text \<open>
  The first match of \<^verbatim>\<open>/Simple mixer control '([^']+)'/\<close>: its capture group. After the
  literal prefix the greedy run of characters other than a quote must be non-empty and be
  followed by a quote.
\<close>

definition mixer_prefix :: string where
  "mixer_prefix = ''Simple mixer control '' @ squote"

definition not_quote :: "char \<Rightarrow> bool" where
  "not_quote c = (c \<noteq> CHR 0x27)"

fun match_device :: "string \<Rightarrow> string option" where
  "match_device [] = None"
| "match_device (c # cs) =
     (if take (length mixer_prefix) (c # cs) = mixer_prefix
         \<and> takeWhile not_quote (drop (length mixer_prefix) (c # cs)) \<noteq> []
         \<and> dropWhile not_quote (drop (length mixer_prefix) (c # cs)) \<noteq> []
      then Some (takeWhile not_quote (drop (length mixer_prefix) (c # cs)))
      else match_device cs)"

subsection \<open>Values of a decoded document\<close>

text \<open>
  The \<^verbatim>\<open>value\<close> property of a decoded request: \<^verbatim>\<open>Undefined\<close> when the property is
  missing, otherwise a JSON value. Of an object only the names of its own properties are
  kept: the code never reads a property of \<^verbatim>\<open>value\<close>, it only converts \<^verbatim>\<open>value\<close>.
\<close>

datatype jsval =
    Undefined
  | Null
  | Bool bool
  | Number jsnum
  | Str string
  | Array "jsval list"
  | Object "string list"

text \<open>
  \<^verbatim>\<open>ToString\<close>. An array is joined with commas, \<^verbatim>\<open>null\<close> elements as empty strings.
  A decoded object has no callable property of its own, so an own \<^verbatim>\<open>toString\<close> hides the
  inherited method and the conversion throws; without one the inherited method answers.
\<close>

definition not_primitive :: js_error where
  "not_primitive = Error ''Cannot convert object to primitive value''"

fun ToString :: "jsval \<Rightarrow> js_error + string"
  and join :: "jsval list \<Rightarrow> js_error + string" where
  "ToString Undefined = Inr ''undefined''"
| "ToString Null = Inr ''null''"
| "ToString (Bool b) = Inr (if b then ''true'' else ''false'')"
| "ToString (Number n) = Inr (number_to_string n)"
| "ToString (Str s) = Inr s"
| "ToString (Array xs) = join xs"
| "ToString (Object ks) =
     (if ''toString'' \<in> set ks then Inl not_primitive else Inr ''[object Object]'')"
| "join [] = Inr []"
| "join (x # xs) =
     (case (case x of Undefined \<Rightarrow> Inr [] | Null \<Rightarrow> Inr [] | _ \<Rightarrow> ToString x) of
        Inl e \<Rightarrow> Inl e
      | Inr a \<Rightarrow>
          if xs = [] then Inr a
          else (case join xs of Inl e \<Rightarrow> Inl e | Inr b \<Rightarrow> Inr (a @ '','' @ b)))"

text \<open>\<^verbatim>\<open>ToPrimitive\<close>: an array or an object becomes its string.\<close>

definition ToPrimitive :: "jsval \<Rightarrow> js_error + jsval" where
  "ToPrimitive v =
     (case v of
        Array xs \<Rightarrow> (case join xs of Inl e \<Rightarrow> Inl e | Inr s \<Rightarrow> Inr (Str s))
      | Object ks \<Rightarrow> (case ToString (Object ks) of Inl e \<Rightarrow> Inl e | Inr s \<Rightarrow> Inr (Str s))
      | _ \<Rightarrow> Inr v)"

text \<open>\<^verbatim>\<open>ToNumber\<close> of a primitive value, and of any value.\<close>

fun primitive_number :: "jsval \<Rightarrow> jsnum" where
  "primitive_number Undefined = NaN"
| "primitive_number Null = Num 0"
| "primitive_number (Bool b) = Num (if b then 1 else 0)"
| "primitive_number (Number n) = n"
| "primitive_number (Str s) = StringToNumber s"
| "primitive_number _ = NaN"

definition ToNumber :: "jsval \<Rightarrow> js_error + jsnum" where
  "ToNumber v = (case ToPrimitive v of Inl e \<Rightarrow> Inl e | Inr p \<Rightarrow> Inr (primitive_number p))"

text \<open>
  \<^verbatim>\<open>a + v\<close> for a number \<open>a\<close>: when \<open>v\<close> becomes a string the two are concatenated, otherwise
  they are added as numbers. \<^verbatim>\<open>a - v\<close> always subtracts numbers.
\<close>

definition js_add :: "jsnum \<Rightarrow> jsval \<Rightarrow> js_error + jsval" where
  "js_add a v =
     (case ToPrimitive v of
        Inl e \<Rightarrow> Inl e
      | Inr (Str s) \<Rightarrow> Inr (Str (number_to_string a @ s))
      | Inr p \<Rightarrow> Inr (Number (js_plus a (primitive_number p))))"

definition js_sub :: "jsnum \<Rightarrow> jsval \<Rightarrow> js_error + jsnum" where
  "js_sub a v = (case ToNumber v of Inl e \<Rightarrow> Inl e | Inr n \<Rightarrow> Inr (js_minus a n))"

text \<open>\<^verbatim>\<open>Math.min(a, v)\<close> for a number \<open>a\<close> and any value \<open>v\<close>.\<close>

definition Math_min_of :: "jsnum \<Rightarrow> jsval \<Rightarrow> js_error + jsnum" where
  "Math_min_of a v = (case ToNumber v of Inl e \<Rightarrow> Inl e | Inr n \<Rightarrow> Inr (Math_min a n))"

section \<open>The host: shell commands, console, sockets\<close>

text \<open>
  \<^verbatim>\<open>execAsync\<close> runs a command on the host. The host is a state \<open>'w\<close> with a
  transition function: a command either fails (the promise rejects) or prints its standard
  output, and may change the host.
\<close>

datatype exec_result = ExecError | Stdout string

type_synonym 'w shell = "string \<Rightarrow> 'w \<Rightarrow> exec_result \<times> 'w"

text \<open>
  What the server puts on the wire, before \<^verbatim>\<open>JSON.stringify\<close>: the state document
  \<^verbatim>\<open>{volume, muted, device}\<close> or the error document \<^verbatim>\<open>{error}\<close>.
\<close>

datatype message = StateMsg jsnum bool string | ErrorMsg string

text \<open>
  The observable effects, in the order they happen: a command handed to the shell, a line
  written with \<^verbatim>\<open>console.error\<close>, a frame handed to an open socket whose link carries it
  (\<open>Sent\<close>) or loses it (\<open>Lost\<close>), and a call of \<^verbatim>\<open>broadcastState\<close>.
\<close>

datatype event =
    Exec string
  | ConsoleError string
  | Sent nat message
  | Lost nat message
  | BroadcastCall

datatype ready_state = CONNECTING | OPEN | CLOSING | CLOSED

text \<open>
  A connection of the \<^verbatim>\<open>ws\<close> library: its identity, its \<^verbatim>\<open>readyState\<close>, and whether
  the link under it still carries frames. A broken link is found out by the library only
  later, so it is not visible in \<^verbatim>\<open>readyState\<close>.
\<close>

record client =
  cid :: nat
  readyState :: ready_state
  link_up :: bool

text \<open>
  The process: the host, the effects so far, \<^verbatim>\<open>wss\<close> (\<open>None\<close> is \<^verbatim>\<open>null\<close>, otherwise the
  server with its \<^verbatim>\<open>clients\<close> in insertion order), \<^verbatim>\<open>lastVolume\<close> and \<^verbatim>\<open>lastMute\<close>
  (\<open>None\<close> is \<^verbatim>\<open>null\<close>).
\<close>

record 'w state =
  os :: 'w
  trace :: "event list"
  wss :: "client list option"
  lastVolume :: "jsnum option"
  lastMute :: "bool option"

definition execAsync :: "'w shell \<Rightarrow> string \<Rightarrow> 'w state \<Rightarrow> exec_result \<times> 'w state" where
  "execAsync sh cmd s =
     (case sh cmd (os s) of
        (r, w) \<Rightarrow> (r, s\<lparr>os := w, trace := trace s @ [Exec cmd]\<rparr>))"

definition console_error :: "string \<Rightarrow> 'w state \<Rightarrow> 'w state" where
  "console_error label s = s\<lparr>trace := trace s @ [ConsoleError label]\<rparr>"

text \<open>
  \<^verbatim>\<open>ws.send(data)\<close> of \<^verbatim>\<open>ws\<close> 8 (the version the build scripts pin): it throws on a
  connecting socket, discards the data on a closing or closed one, and otherwise hands the
  frame to the link and returns; a write error is reported later and never thrown here.
\<close>

definition send :: "client \<Rightarrow> message \<Rightarrow> 'w state \<Rightarrow> (js_error + unit) \<times> 'w state" where
  "send c msg s =
     (if readyState c = CONNECTING
      then (Inl (Error ''WebSocket is not open: readyState 0 (CONNECTING)''), s)
      else if readyState c \<noteq> OPEN then (Inr (), s)
      else if link_up c then (Inr (), s\<lparr>trace := trace s @ [Sent (cid c) msg]\<rparr>)
      else (Inr (), s\<lparr>trace := trace s @ [Lost (cid c) msg]\<rparr>))"

section \<open>volumeController.js\<close>

text \<open>
  Each platform function runs one command inside \<^verbatim>\<open>try\<close>, and its \<^verbatim>\<open>catch\<close> logs and
  returns. The command lines are named here (\<open>cmd_\<close> and the function's name) and used
  in the functions below.
\<close>

subsection \<open>Linux: amixer\<close>

definition cmd_getVolumeLinux :: string where
  "cmd_getVolumeLinux = ''amixer get Master''"

definition cmd_setVolumeLinux :: "jsnum \<Rightarrow> string" where
  "cmd_setVolumeLinux volume = ''amixer set Master '' @ number_to_string volume @ ''%''"

definition cmd_getMutedLinux :: string where
  "cmd_getMutedLinux = ''amixer get Master''"

definition cmd_setMutedLinux :: "bool \<Rightarrow> string" where
  "cmd_setMutedLinux muted = ''amixer set Master '' @ (if muted then ''mute'' else ''unmute'')"

definition cmd_getOutputDeviceLinux :: string where
  "cmd_getOutputDeviceLinux = ''amixer''"

definition getVolumeLinux :: "'w shell \<Rightarrow> 'w state \<Rightarrow> jsnum \<times> 'w state" where
  "getVolumeLinux sh s =
     (case execAsync sh cmd_getVolumeLinux s of
        (Stdout out, s1) \<Rightarrow>
          (case match_volume out of Some m \<Rightarrow> (parseInt m, s1) | None \<Rightarrow> (Num 0, s1))
      | (ExecError, s1) \<Rightarrow> (Num 0, console_error ''Error getting volume:'' s1))"

definition setVolumeLinux :: "'w shell \<Rightarrow> jsnum \<Rightarrow> 'w state \<Rightarrow> 'w state" where
  "setVolumeLinux sh volume s =
     (case execAsync sh (cmd_setVolumeLinux volume) s of
        (Stdout out, s1) \<Rightarrow> s1
      | (ExecError, s1) \<Rightarrow> console_error ''Error setting volume:'' s1)"

definition getMutedLinux :: "'w shell \<Rightarrow> 'w state \<Rightarrow> bool \<times> 'w state" where
  "getMutedLinux sh s =
     (case execAsync sh cmd_getMutedLinux s of
        (Stdout out, s1) \<Rightarrow> (str_includes out ''[off]'', s1)
      | (ExecError, s1) \<Rightarrow> (False, console_error ''Error getting mute state:'' s1))"

definition setMutedLinux :: "'w shell \<Rightarrow> bool \<Rightarrow> 'w state \<Rightarrow> 'w state" where
  "setMutedLinux sh muted s =
     (case execAsync sh (cmd_setMutedLinux muted) s of
        (Stdout out, s1) \<Rightarrow> s1
      | (ExecError, s1) \<Rightarrow> console_error ''Error setting mute state:'' s1)"

definition getOutputDeviceLinux :: "'w shell \<Rightarrow> 'w state \<Rightarrow> string \<times> 'w state" where
  "getOutputDeviceLinux sh s =
     (case execAsync sh cmd_getOutputDeviceLinux s of
        (Stdout out, s1) \<Rightarrow>
          (case match_device out of Some m \<Rightarrow> (m, s1) | None \<Rightarrow> (''Master'', s1))
      | (ExecError, s1) \<Rightarrow> (''Master'', console_error ''Error getting output device:'' s1))"

subsection \<open>macOS: osascript\<close>

definition cmd_getVolumeMac :: string where
  "cmd_getVolumeMac =
     ''osascript -e '' @ dquote @ ''output volume of (get volume settings)'' @ dquote"

definition cmd_setVolumeMac :: "jsnum \<Rightarrow> string" where
  "cmd_setVolumeMac volume =
     ''osascript -e '' @ dquote @ ''set volume output volume '' @ number_to_string volume @ dquote"

definition cmd_getMutedMac :: string where
  "cmd_getMutedMac =
     ''osascript -e '' @ dquote @ ''output muted of (get volume settings)'' @ dquote"

definition cmd_setMutedMac :: "bool \<Rightarrow> string" where
  "cmd_setMutedMac muted =
     ''osascript -e '' @ dquote @ ''set volume '' @ (if muted then ''with'' else ''without'')
       @ '' output muted'' @ dquote"

definition cmd_getOutputDeviceMac :: string where
  "cmd_getOutputDeviceMac =
     ''system_profiler SPAudioDataType | grep '' @ dquote @ ''Default Output Device'' @ dquote
       @ '' -A 1 | tail -n 1 | sed '' @ dquote @ ''s/.*: //'' @ dquote"

definition getVolumeMac :: "'w shell \<Rightarrow> 'w state \<Rightarrow> jsnum \<times> 'w state" where
  "getVolumeMac sh s =
     (case execAsync sh cmd_getVolumeMac s of
        (Stdout out, s1) \<Rightarrow> (parseInt (trim out), s1)
      | (ExecError, s1) \<Rightarrow> (Num 0, console_error ''Error getting volume:'' s1))"

definition setVolumeMac :: "'w shell \<Rightarrow> jsnum \<Rightarrow> 'w state \<Rightarrow> 'w state" where
  "setVolumeMac sh volume s =
     (case execAsync sh (cmd_setVolumeMac volume) s of
        (Stdout out, s1) \<Rightarrow> s1
      | (ExecError, s1) \<Rightarrow> console_error ''Error setting volume:'' s1)"

definition getMutedMac :: "'w shell \<Rightarrow> 'w state \<Rightarrow> bool \<times> 'w state" where
  "getMutedMac sh s =
     (case execAsync sh cmd_getMutedMac s of
        (Stdout out, s1) \<Rightarrow> (trim out = ''true'', s1)
      | (ExecError, s1) \<Rightarrow> (False, console_error ''Error getting mute state:'' s1))"

definition setMutedMac :: "'w shell \<Rightarrow> bool \<Rightarrow> 'w state \<Rightarrow> 'w state" where
  "setMutedMac sh muted s =
     (case execAsync sh (cmd_setMutedMac muted) s of
        (Stdout out, s1) \<Rightarrow> s1
      | (ExecError, s1) \<Rightarrow> console_error ''Error setting mute state:'' s1)"

definition getOutputDeviceMac :: "'w shell \<Rightarrow> 'w state \<Rightarrow> string \<times> 'w state" where
  "getOutputDeviceMac sh s =
     (case execAsync sh cmd_getOutputDeviceMac s of
        (Stdout out, s1) \<Rightarrow> (if trim out = [] then ''Built-in Output'' else trim out, s1)
      | (ExecError, s1) \<Rightarrow>
          (''Built-in Output'', console_error ''Error getting output device:'' s1))"

subsection \<open>Windows: PowerShell\<close>

definition cmd_getVolumeWindows :: string where
  "cmd_getVolumeWindows =
     ''powershell -c '' @ dquote
       @ ''(New-Object -ComObject WScript.Shell).SendKeys([char]174); ''
       @ ''Start-Sleep -m 50; Add-Type -AssemblyName System.Windows.Forms; ''
       @ ''[System.Windows.Forms.SendKeys]::SendWait('' @ squote @ ''{ESC}'' @ squote
       @ ''); [Math]::Round([Audio]::Volume * 100)'' @ dquote"

text \<open>\<^verbatim>\<open>script.replace(/\n/g, ' ')\<close>.\<close>

definition newlines_to_spaces :: "string \<Rightarrow> string" where
  "newlines_to_spaces str = map (\<lambda>c. if c = CHR 0x0A then CHR 0x20 else c) str"

definition cmd_setVolumeWindows :: "jsnum \<Rightarrow> string" where
  "cmd_setVolumeWindows volume =
     (let script =
            [CHR 0x0A] @ ''      $wshShell = New-Object -ComObject WScript.Shell''
          @ [CHR 0x0A] @ ''      1..50 | ForEach-Object { $wshShell.SendKeys([char]174) }''
          @ [CHR 0x0A] @ ''      1..'' @ number_to_string volume
                       @ '' | ForEach-Object { $wshShell.SendKeys([char]175) }''
          @ [CHR 0x0A] @ ''    ''
      in ''powershell -c '' @ dquote @ newlines_to_spaces script @ dquote)"

definition cmd_getMutedWindows :: string where
  "cmd_getMutedWindows = ''powershell -c '' @ dquote @ ''Get-AudioDevice -PlaybackMute'' @ dquote"

definition cmd_setMutedWindows :: "bool \<Rightarrow> string" where
  "cmd_setMutedWindows muted =
     ''powershell -c '' @ dquote @ ''Set-AudioDevice -PlaybackMute ''
       @ (if muted then ''true'' else ''false'') @ dquote"

definition cmd_getOutputDeviceWindows :: string where
  "cmd_getOutputDeviceWindows =
     ''powershell -c '' @ dquote @ ''(Get-AudioDevice -Playback).Name'' @ dquote"

definition getVolumeWindows :: "'w shell \<Rightarrow> 'w state \<Rightarrow> jsnum \<times> 'w state" where
  "getVolumeWindows sh s =
     (case execAsync sh cmd_getVolumeWindows s of
        (Stdout out, s1) \<Rightarrow> (parseInt (trim out), s1)
      | (ExecError, s1) \<Rightarrow> (Num 0, console_error ''Error getting volume:'' s1))"

definition setVolumeWindows :: "'w shell \<Rightarrow> jsnum \<Rightarrow> 'w state \<Rightarrow> 'w state" where
  "setVolumeWindows sh volume s =
     (case execAsync sh (cmd_setVolumeWindows volume) s of
        (Stdout out, s1) \<Rightarrow> s1
      | (ExecError, s1) \<Rightarrow> console_error ''Error setting volume:'' s1)"

definition getMutedWindows :: "'w shell \<Rightarrow> 'w state \<Rightarrow> bool \<times> 'w state" where
  "getMutedWindows sh s =
     (case execAsync sh cmd_getMutedWindows s of
        (Stdout out, s1) \<Rightarrow> (trim out = ''True'', s1)
      | (ExecError, s1) \<Rightarrow> (False, console_error ''Error getting mute state:'' s1))"

definition setMutedWindows :: "'w shell \<Rightarrow> bool \<Rightarrow> 'w state \<Rightarrow> 'w state" where
  "setMutedWindows sh muted s =
     (case execAsync sh (cmd_setMutedWindows muted) s of
        (Stdout out, s1) \<Rightarrow> s1
      | (ExecError, s1) \<Rightarrow> console_error ''Error setting mute state:'' s1)"

definition getOutputDeviceWindows :: "'w shell \<Rightarrow> 'w state \<Rightarrow> string \<times> 'w state" where
  "getOutputDeviceWindows sh s =
     (case execAsync sh cmd_getOutputDeviceWindows s of
        (Stdout out, s1) \<Rightarrow> (if trim out = [] then ''Default'' else trim out, s1)
      | (ExecError, s1) \<Rightarrow> (''Default'', console_error ''Error getting output device:'' s1))"

subsection \<open>The platform-agnostic API\<close>

text \<open>
  \<open>pf\<close> is \<^verbatim>\<open>os.platform()\<close>. Each exported function switches on it and throws
  \<^verbatim>\<open>Unsupported platform\<close> in the default case. \<^verbatim>\<open>setVolume\<close> clamps first, and the
  conversion of its argument to a number can throw.
\<close>

definition unsupported :: "string \<Rightarrow> js_error" where
  "unsupported pf = Error (''Unsupported platform: '' @ pf)"

definition getVolume :: "'w shell \<Rightarrow> string \<Rightarrow> 'w state \<Rightarrow> (js_error + jsnum) \<times> 'w state" where
  "getVolume sh pf s =
     (if pf = ''linux'' then (case getVolumeLinux sh s of (v, s1) \<Rightarrow> (Inr v, s1))
      else if pf = ''darwin'' then (case getVolumeMac sh s of (v, s1) \<Rightarrow> (Inr v, s1))
      else if pf = ''win32'' then (case getVolumeWindows sh s of (v, s1) \<Rightarrow> (Inr v, s1))
      else (Inl (unsupported pf), s))"

definition setVolume :: "'w shell \<Rightarrow> string \<Rightarrow> jsval \<Rightarrow> 'w state \<Rightarrow> (js_error + unit) \<times> 'w state" where
  "setVolume sh pf volume s =
     (case Math_min_of (Num 100) volume of
        Inl e \<Rightarrow> (Inl e, s)
      | Inr least \<Rightarrow>
          let vol = Math_max (Num 0) least
          in if pf = ''linux'' then (Inr (), setVolumeLinux sh vol s)
             else if pf = ''darwin'' then (Inr (), setVolumeMac sh vol s)
             else if pf = ''win32'' then (Inr (), setVolumeWindows sh vol s)
             else (Inl (unsupported pf), s))"

definition getMuted :: "'w shell \<Rightarrow> string \<Rightarrow> 'w state \<Rightarrow> (js_error + bool) \<times> 'w state" where
  "getMuted sh pf s =
     (if pf = ''linux'' then (case getMutedLinux sh s of (m, s1) \<Rightarrow> (Inr m, s1))
      else if pf = ''darwin'' then (case getMutedMac sh s of (m, s1) \<Rightarrow> (Inr m, s1))
      else if pf = ''win32'' then (case getMutedWindows sh s of (m, s1) \<Rightarrow> (Inr m, s1))
      else (Inl (unsupported pf), s))"

definition setMuted :: "'w shell \<Rightarrow> string \<Rightarrow> bool \<Rightarrow> 'w state \<Rightarrow> (js_error + unit) \<times> 'w state" where
  "setMuted sh pf muted s =
     (if pf = ''linux'' then (Inr (), setMutedLinux sh muted s)
      else if pf = ''darwin'' then (Inr (), setMutedMac sh muted s)
      else if pf = ''win32'' then (Inr (), setMutedWindows sh muted s)
      else (Inl (unsupported pf), s))"

definition getOutputDevice :: "'w shell \<Rightarrow> string \<Rightarrow> 'w state \<Rightarrow> (js_error + string) \<times> 'w state" where
  "getOutputDevice sh pf s =
     (if pf = ''linux'' then (case getOutputDeviceLinux sh s of (d, s1) \<Rightarrow> (Inr d, s1))
      else if pf = ''darwin'' then (case getOutputDeviceMac sh s of (d, s1) \<Rightarrow> (Inr d, s1))
      else if pf = ''win32'' then (case getOutputDeviceWindows sh s of (d, s1) \<Rightarrow> (Inr d, s1))
      else (Inl (unsupported pf), s))"

section \<open>main.js\<close>

text \<open>
  Each function below is one callback run from its start to its end: the calls of
  \<^verbatim>\<open>sendState\<close> and \<^verbatim>\<open>broadcastState\<close> that the source does not await are carried out
  where they are made, and no other callback runs in between. That is how a single message
  is handled. The event loop itself serialises nothing: a callback gives way at each
  \<^verbatim>\<open>await\<close>, and a message that arrives meanwhile starts its own callback. The
  \<^verbatim>\<open>toggleMute\<close> callback is therefore also given in its parts, after \<open>on_message\<close>,
  together with the run of two such callbacks that overlap.
\<close>

definition startWebSocketServer :: "'w state \<Rightarrow> 'w state" where
  "startWebSocketServer s = s\<lparr>wss := Some []\<rparr>"

text \<open>\<^verbatim>\<open>sendState(ws)\<close>: the whole body is inside \<^verbatim>\<open>try\<close>.\<close>

definition sendState :: "'w shell \<Rightarrow> string \<Rightarrow> client \<Rightarrow> 'w state \<Rightarrow> 'w state" where
  "sendState sh pf ws s =
     (case getVolume sh pf s of
        (Inl e, s1) \<Rightarrow> console_error ''Error getting state:'' s1
      | (Inr volume, s1) \<Rightarrow>
     (case getMuted sh pf s1 of
        (Inl e, s2) \<Rightarrow> console_error ''Error getting state:'' s2
      | (Inr muted, s2) \<Rightarrow>
     (case getOutputDevice sh pf s2 of
        (Inl e, s3) \<Rightarrow> console_error ''Error getting state:'' s3
      | (Inr device, s3) \<Rightarrow>
     (case send ws (StateMsg volume muted device) s3 of
        (Inl e, s4) \<Rightarrow> console_error ''Error getting state:'' s4
      | (Inr u, s4) \<Rightarrow> s4))))"

text \<open>The \<^verbatim>\<open>wss.clients.forEach\<close> loop of \<^verbatim>\<open>broadcastState\<close>; a throwing \<^verbatim>\<open>send\<close> ends it.\<close>

fun forEach_send :: "client list \<Rightarrow> message \<Rightarrow> 'w state \<Rightarrow> (js_error + unit) \<times> 'w state" where
  "forEach_send [] msg s = (Inr (), s)"
| "forEach_send (c # cs) msg s =
     (if readyState c = OPEN
      then (case send c msg s of
              (Inl e, s1) \<Rightarrow> (Inl e, s1)
            | (Inr u, s1) \<Rightarrow> forEach_send cs msg s1)
      else forEach_send cs msg s)"

text \<open>\<^verbatim>\<open>broadcastState()\<close>. Its call is recorded first, as \<open>BroadcastCall\<close>.\<close>

definition broadcastState :: "'w shell \<Rightarrow> string \<Rightarrow> 'w state \<Rightarrow> 'w state" where
  "broadcastState sh pf s0 =
     (let s = s0\<lparr>trace := trace s0 @ [BroadcastCall]\<rparr> in
      case wss s of
        None \<Rightarrow> s
      | Some cs \<Rightarrow>
     (case getVolume sh pf s of
        (Inl e, s1) \<Rightarrow> console_error ''Error broadcasting state:'' s1
      | (Inr volume, s1) \<Rightarrow>
     (case getMuted sh pf s1 of
        (Inl e, s2) \<Rightarrow> console_error ''Error broadcasting state:'' s2
      | (Inr muted, s2) \<Rightarrow>
     (case getOutputDevice sh pf s2 of
        (Inl e, s3) \<Rightarrow> console_error ''Error broadcasting state:'' s3
      | (Inr device, s3) \<Rightarrow>
     (case forEach_send cs (StateMsg volume muted device) s3 of
        (Inl e, s4) \<Rightarrow> console_error ''Error broadcasting state:'' s4
      | (Inr u, s4) \<Rightarrow> s4)))))"

text \<open>
  What \<^verbatim>\<open>JSON.parse(message)\<close> gives: a \<^verbatim>\<open>SyntaxError\<close> with its message, \<^verbatim>\<open>null\<close>, or
  any other value, of which the handler reads the properties \<^verbatim>\<open>action\<close> (\<open>None\<close> when it
  is not a string) and \<^verbatim>\<open>value\<close>.
\<close>

datatype document = JsonNull | JsonDoc "string option" jsval

datatype parsed = SyntaxError string | Parsed document

text \<open>The message of the \<^verbatim>\<open>TypeError\<close> that destructuring \<^verbatim>\<open>null\<close> throws.\<close>

definition destructure_null :: js_error where
  "destructure_null =
     Error (''Cannot destructure property '' @ squote @ ''action'' @ squote @ '' of ''
            @ squote @ ''data'' @ squote @ '' as it is null.'')"

definition handleMessage ::
  "'w shell \<Rightarrow> string \<Rightarrow> document \<Rightarrow> client \<Rightarrow> 'w state \<Rightarrow> (js_error + unit) \<times> 'w state" where
  "handleMessage sh pf data ws s =
     (case data of
        JsonNull \<Rightarrow> (Inl destructure_null, s)
      | JsonDoc action val \<Rightarrow>
          if action = Some ''setVolume'' then
            (case setVolume sh pf val s of
               (Inl e, s1) \<Rightarrow> (Inl e, s1)
             | (Inr u, s1) \<Rightarrow> (Inr (), broadcastState sh pf s1))
          else if action = Some ''getState'' then (Inr (), sendState sh pf ws s)
          else if action = Some ''increaseVolume'' then
            (case getVolume sh pf s of
               (Inl e, s1) \<Rightarrow> (Inl e, s1)
             | (Inr currentVol, s1) \<Rightarrow>
            (case js_add currentVol val of
               Inl e \<Rightarrow> (Inl e, s1)
             | Inr added \<Rightarrow>
            (case Math_min_of (Num 100) added of
               Inl e \<Rightarrow> (Inl e, s1)
             | Inr least \<Rightarrow>
            (case setVolume sh pf (Number least) s1 of
               (Inl e, s2) \<Rightarrow> (Inl e, s2)
             | (Inr u, s2) \<Rightarrow> (Inr (), broadcastState sh pf s2)))))
          else if action = Some ''decreaseVolume'' then
            (case getVolume sh pf s of
               (Inl e, s1) \<Rightarrow> (Inl e, s1)
             | (Inr vol, s1) \<Rightarrow>
            (case js_sub vol val of
               Inl e \<Rightarrow> (Inl e, s1)
             | Inr lowered \<Rightarrow>
            (case setVolume sh pf (Number (Math_max (Num 0) lowered)) s1 of
               (Inl e, s2) \<Rightarrow> (Inl e, s2)
             | (Inr u, s2) \<Rightarrow> (Inr (), broadcastState sh pf s2))))
          else if action = Some ''mute'' then
            (case setMuted sh pf True s of
               (Inl e, s1) \<Rightarrow> (Inl e, s1)
             | (Inr u, s1) \<Rightarrow> (Inr (), broadcastState sh pf s1))
          else if action = Some ''unmute'' then
            (case setMuted sh pf False s of
               (Inl e, s1) \<Rightarrow> (Inl e, s1)
             | (Inr u, s1) \<Rightarrow> (Inr (), broadcastState sh pf s1))
          else if action = Some ''toggleMute'' then
            (case getMuted sh pf s of
               (Inl e, s1) \<Rightarrow> (Inl e, s1)
             | (Inr isMuted, s1) \<Rightarrow>
            (case setMuted sh pf (\<not> isMuted) s1 of
               (Inl e, s2) \<Rightarrow> (Inl e, s2)
             | (Inr u, s2) \<Rightarrow> (Inr (), broadcastState sh pf s2)))
          else if action = Some ''isMuted'' then (Inr (), sendState sh pf ws s)
          else send ws (ErrorMsg ''Unknown action'') s)"

text \<open>
  The \<^verbatim>\<open>ws.on('message', ...)\<close> callback of \<^verbatim>\<open>startWebSocketServer\<close>. An error thrown by
  \<^verbatim>\<open>JSON.parse\<close> or by \<^verbatim>\<open>handleMessage\<close> is logged and its message sent to \<open>ws\<close>; an
  error of that last \<^verbatim>\<open>send\<close> leaves the callback (\<open>Inl\<close>).
\<close>

definition on_message ::
  "'w shell \<Rightarrow> string \<Rightarrow> parsed \<Rightarrow> client \<Rightarrow> 'w state \<Rightarrow> (js_error + unit) \<times> 'w state" where
  "on_message sh pf message ws s =
     (case (case message of
              SyntaxError m \<Rightarrow> (Inl (Error m), s)
            | Parsed data \<Rightarrow> handleMessage sh pf data ws s) of
        (Inr u, s1) \<Rightarrow> (Inr (), s1)
      | (Inl (Error m), s1) \<Rightarrow>
          send ws (ErrorMsg m) (console_error ''Error handling message:'' s1))"

text \<open>
  The \<^verbatim>\<open>toggleMute\<close> callback in its parts. It awaits \<^verbatim>\<open>getMuted\<close>; resumed with the
  answer it calls \<^verbatim>\<open>setMuted\<close> and awaits that (\<open>toggleMute_apply\<close>); resumed again it
  calls \<^verbatim>\<open>broadcastState\<close>, or, after an error, logs it and answers the sender
  (\<open>toggleMute_finish\<close>).
\<close>

definition toggleMute_apply ::
  "'w shell \<Rightarrow> string \<Rightarrow> js_error + bool \<Rightarrow> 'w state \<Rightarrow> (js_error + unit) \<times> 'w state" where
  "toggleMute_apply sh pf answer s =
     (case answer of
        Inl e \<Rightarrow> (Inl e, s)
      | Inr isMuted \<Rightarrow> setMuted sh pf (\<not> isMuted) s)"

definition toggleMute_finish ::
  "'w shell \<Rightarrow> string \<Rightarrow> client \<Rightarrow> js_error + unit \<Rightarrow> 'w state \<Rightarrow> 'w state" where
  "toggleMute_finish sh pf ws outcome s =
     (case outcome of
        Inr u \<Rightarrow> broadcastState sh pf s
      | Inl (Error m) \<Rightarrow> snd (send ws (ErrorMsg m) (console_error ''Error handling message:'' s)))"

text \<open>
  Two \<^verbatim>\<open>toggleMute\<close> messages, from \<open>ws1\<close> and then from \<open>ws2\<close>, the second arriving
  while the first callback awaits its query: both callbacks query, then both apply, then
  both finish.
\<close>

definition overlapped_toggleMute ::
  "'w shell \<Rightarrow> string \<Rightarrow> client \<Rightarrow> client \<Rightarrow> 'w state \<Rightarrow> 'w state" where
  "overlapped_toggleMute sh pf ws1 ws2 s =
     (case getMuted sh pf s of (answer1, s1) \<Rightarrow>
      case getMuted sh pf s1 of (answer2, s2) \<Rightarrow>
      case toggleMute_apply sh pf answer1 s2 of (outcome1, s3) \<Rightarrow>
      case toggleMute_apply sh pf answer2 s3 of (outcome2, s4) \<Rightarrow>
        toggleMute_finish sh pf ws2 outcome2 (toggleMute_finish sh pf ws1 outcome1 s4))"

text \<open>
  The \<^verbatim>\<open>wss.on('connection', ...)\<close> callback: the library has added \<open>ws\<close> to
  \<^verbatim>\<open>wss.clients\<close>, and the server sends it the state.
\<close>

definition on_connection :: "'w shell \<Rightarrow> string \<Rightarrow> client \<Rightarrow> 'w state \<Rightarrow> 'w state" where
  "on_connection sh pf ws s =
     sendState sh pf ws (s\<lparr>wss := (case wss s of None \<Rightarrow> None | Some cs \<Rightarrow> Some (cs @ [ws]))\<rparr>)"

text \<open>
  One run of the \<^verbatim>\<open>setInterval\<close> callback of \<^verbatim>\<open>startPolling\<close>. \<^verbatim>\<open>volume !== lastVolume\<close>
  compares a number with \<^verbatim>\<open>null\<close> or with a number, \<^verbatim>\<open>muted !== lastMute\<close> a boolean
  with \<^verbatim>\<open>null\<close> or with a boolean.
\<close>

definition volume_changed :: "jsnum \<Rightarrow> jsnum option \<Rightarrow> bool" where
  "volume_changed volume prev = (case prev of None \<Rightarrow> True | Some l \<Rightarrow> strict_neq volume l)"

definition mute_changed :: "bool \<Rightarrow> bool option \<Rightarrow> bool" where
  "mute_changed muted prev = (case prev of None \<Rightarrow> True | Some l \<Rightarrow> muted \<noteq> l)"

definition poll_tick :: "'w shell \<Rightarrow> string \<Rightarrow> 'w state \<Rightarrow> 'w state" where
  "poll_tick sh pf s =
     (case getVolume sh pf s of
        (Inl e, s1) \<Rightarrow> console_error ''Error polling:'' s1
      | (Inr volume, s1) \<Rightarrow>
     (case getMuted sh pf s1 of
        (Inl e, s2) \<Rightarrow> console_error ''Error polling:'' s2
      | (Inr muted, s2) \<Rightarrow>
          if volume_changed volume (lastVolume s2) \<or> mute_changed muted (lastMute s2)
          then broadcastState sh pf (s2\<lparr>lastVolume := Some volume, lastMute := Some muted\<rparr>)
          else s2))"

text \<open>The process as the module leaves it when it is loaded.\<close>

definition initial :: "'w \<Rightarrow> 'w state" where
  "initial w = \<lparr>os = w, trace = [], wss = None, lastVolume = None, lastMute = None\<rparr>"

section \<open>Reading the effects\<close>

definition supported :: "string \<Rightarrow> bool" where
  "supported pf = (pf = ''linux'' \<or> pf = ''darwin'' \<or> pf = ''win32'')"

text \<open>The command each exported function runs on a supported platform.\<close>

definition cmd_getVolume :: "string \<Rightarrow> string" where
  "cmd_getVolume pf =
     (if pf = ''linux'' then cmd_getVolumeLinux
      else if pf = ''darwin'' then cmd_getVolumeMac else cmd_getVolumeWindows)"

definition cmd_setVolume :: "string \<Rightarrow> jsnum \<Rightarrow> string" where
  "cmd_setVolume pf vol =
     (if pf = ''linux'' then cmd_setVolumeLinux vol
      else if pf = ''darwin'' then cmd_setVolumeMac vol else cmd_setVolumeWindows vol)"

definition cmd_getMuted :: "string \<Rightarrow> string" where
  "cmd_getMuted pf =
     (if pf = ''linux'' then cmd_getMutedLinux
      else if pf = ''darwin'' then cmd_getMutedMac else cmd_getMutedWindows)"

definition cmd_setMuted :: "string \<Rightarrow> bool \<Rightarrow> string" where
  "cmd_setMuted pf muted =
     (if pf = ''linux'' then cmd_setMutedLinux muted
      else if pf = ''darwin'' then cmd_setMutedMac muted else cmd_setMutedWindows muted)"

definition cmd_getOutputDevice :: "string \<Rightarrow> string" where
  "cmd_getOutputDevice pf =
     (if pf = ''linux'' then cmd_getOutputDeviceLinux
      else if pf = ''darwin'' then cmd_getOutputDeviceMac else cmd_getOutputDeviceWindows)"

text \<open>The default device name of each platform function.\<close>

definition default_device :: "string \<Rightarrow> string" where
  "default_device pf =
     (if pf = ''linux'' then ''Master''
      else if pf = ''darwin'' then ''Built-in Output'' else ''Default'')"

text \<open>
  Projections of a trace: the commands run and the calls of \<^verbatim>\<open>broadcastState\<close>, in order
  (\<open>calls\<close>); the number of those calls; the documents a client received; the error
  documents put on the wire; the number of lines logged.
\<close>

fun is_call :: "event \<Rightarrow> bool" where
  "is_call (Exec c) = True"
| "is_call BroadcastCall = True"
| "is_call _ = False"

definition calls :: "event list \<Rightarrow> event list" where
  "calls tr = filter is_call tr"

definition broadcasts :: "event list \<Rightarrow> nat" where
  "broadcasts tr = length (filter (\<lambda>e. e = BroadcastCall) tr)"

fun frame_to :: "nat \<Rightarrow> event \<Rightarrow> message list" where
  "frame_to i (Sent j msg) = (if i = j then [msg] else [])"
| "frame_to i _ = []"

definition frames_to :: "nat \<Rightarrow> event list \<Rightarrow> message list" where
  "frames_to i tr = concat (map (frame_to i) tr)"

fun is_error_frame :: "event \<Rightarrow> bool" where
  "is_error_frame (Sent i (ErrorMsg m)) = True"
| "is_error_frame (Lost i (ErrorMsg m)) = True"
| "is_error_frame _ = False"

definition error_frames :: "event list \<Rightarrow> event list" where
  "error_frames tr = filter is_error_frame tr"

fun is_log :: "event \<Rightarrow> bool" where
  "is_log (ConsoleError l) = True"
| "is_log _ = False"

definition logged :: "event list \<Rightarrow> nat" where
  "logged tr = length (filter is_log tr)"

text \<open>Everything in a trace but the lines logged, in order.\<close>

definition effects :: "event list \<Rightarrow> event list" where
  "effects tr = filter (\<lambda>e. \<not> is_log e) tr"

text \<open>The events a step added to the trace.\<close>

definition new_events :: "'w state \<Rightarrow> 'w state \<Rightarrow> event list" where
  "new_events s s1 = drop (length (trace s)) (trace s1)"

text \<open>
  Replaying a trace on the host it was recorded on, from the host state \<open>w\<close>: the trace
  passes when every command that fails is followed at once by a line that one of the
  platform functions logs.
\<close>

definition wrapper_labels :: "string list" where
  "wrapper_labels =
     [''Error getting volume:'', ''Error setting volume:'', ''Error getting mute state:'',
      ''Error setting mute state:'', ''Error getting output device:'']"

fun is_wrapper_log :: "event \<Rightarrow> bool" where
  "is_wrapper_log (ConsoleError l) = (l \<in> set wrapper_labels)"
| "is_wrapper_log _ = False"

fun audit_step :: "'w shell \<Rightarrow> bool \<times> 'w \<times> bool \<Rightarrow> event \<Rightarrow> bool \<times> 'w \<times> bool" where
  "audit_step sh (ok, w, pending) e =
     (if pending then (ok \<and> is_wrapper_log e, w, False)
      else (case e of
              Exec cmd \<Rightarrow> (ok, snd (sh cmd w), fst (sh cmd w) = ExecError)
            | _ \<Rightarrow> (ok, w, False)))"

definition failures_logged :: "'w shell \<Rightarrow> 'w \<Rightarrow> event list \<Rightarrow> bool" where
  "failures_logged sh w tr =
     (case foldl (audit_step sh) (True, w, False) tr of (ok, w1, pending) \<Rightarrow> ok \<and> \<not> pending)"

text \<open>A step from \<open>s\<close> to \<open>s1\<close> whose added events pass the replay and leave the replayed
  host in the state of \<open>s1\<close>.\<close>

definition audited :: "'w shell \<Rightarrow> 'w state \<Rightarrow> 'w state \<Rightarrow> bool" where
  "audited sh s s1 =
     (\<exists>evs. trace s1 = trace s @ evs
            \<and> foldl (audit_step sh) (True, os s, False) evs = (True, os s1, False))"

text \<open>A value that \<^verbatim>\<open>ToPrimitive\<close> converts without throwing.\<close>

definition converts :: "jsval \<Rightarrow> bool" where
  "converts v = (case ToPrimitive v of Inl e \<Rightarrow> False | Inr p \<Rightarrow> True)"

text \<open>
  One guarded command, as every platform function performs it: the command is run, the host
  moves on, and a failure is logged under the function's label.
\<close>

definition run :: "'w shell \<Rightarrow> string \<Rightarrow> string \<Rightarrow> 'w state \<Rightarrow> 'w state" where
  "run sh cmd label s =
     s\<lparr>os := snd (sh cmd (os s)),
       trace := trace s @ Exec cmd #
                  (case fst (sh cmd (os s)) of ExecError \<Rightarrow> [ConsoleError label] | Stdout out \<Rightarrow> [])\<rparr>"

text \<open>The three queries of \<^verbatim>\<open>sendState\<close> and \<^verbatim>\<open>broadcastState\<close> on a supported
  platform, as one step, and the commands they run when the server is up.\<close>

definition query3 :: "'w shell \<Rightarrow> string \<Rightarrow> 'w state \<Rightarrow> 'w state" where
  "query3 sh pf s =
     run sh (cmd_getOutputDevice pf) ''Error getting output device:''
       (run sh (cmd_getMuted pf) ''Error getting mute state:''
          (run sh (cmd_getVolume pf) ''Error getting volume:'' s))"

definition broadcast_queries :: "string \<Rightarrow> client list option \<Rightarrow> event list" where
  "broadcast_queries pf w =
     (case w of
        None \<Rightarrow> []
      | Some cs \<Rightarrow> [Exec (cmd_getVolume pf), Exec (cmd_getMuted pf), Exec (cmd_getOutputDevice pf)])"

text \<open>What \<^verbatim>\<open>send\<close> adds to the trace for an open client.\<close>

definition is_open :: "client \<Rightarrow> bool" where
  "is_open c = (readyState c = OPEN)"

definition frame_event :: "message \<Rightarrow> client \<Rightarrow> event" where
  "frame_event msg c = (if link_up c then Sent (cid c) msg else Lost (cid c) msg)"

text \<open>What the loop of \<^verbatim>\<open>broadcastState\<close> adds to the trace for a document.\<close>

definition fanout :: "message \<Rightarrow> client list option \<Rightarrow> event list" where
  "fanout msg w =
     (case w of None \<Rightarrow> [] | Some cs \<Rightarrow> map (frame_event msg) (filter is_open cs))"

text \<open>The same process with earlier events put in front of its trace.\<close>

definition prepend :: "event list \<Rightarrow> 'w state \<Rightarrow> 'w state" where
  "prepend p s = s\<lparr>trace := p @ trace s\<rparr>"

text \<open>Hosts used to run the model on concrete inputs: first one on which every command
  fails.\<close>

definition failing_shell :: "unit shell" where
  "failing_shell cmd w = (ExecError, w)"

text \<open>A Mac whose output device has no volume control: \<^verbatim>\<open>osascript\<close> prints
  \<^verbatim>\<open>missing value\<close> for the volume.\<close>

definition hdmi_mac :: "unit shell" where
  "hdmi_mac cmd w =
     (if cmd = cmd_getVolumeMac then (Stdout (''missing value'' @ [CHR 0x0A]), w)
      else if cmd = cmd_getMutedMac then (Stdout (''false'' @ [CHR 0x0A]), w)
      else if cmd = cmd_getOutputDeviceMac then (Stdout (''HDMI'' @ [CHR 0x0A]), w)
      else (Stdout [], w))"

text \<open>A Linux host with a mixer: the host state is the volume and the mute switch.\<close>

definition amixer_host :: "(nat \<times> bool) shell" where
  "amixer_host cmd w =
     (if cmd = ''amixer get Master''
      then (Stdout (''  Mono: Playback ['' @ digits_of_nat (fst w) @ ''%] ''
                      @ (if snd w then ''[off]'' else ''[on]'')), w)
      else if cmd = ''amixer set Master mute'' then (Stdout [], (fst w, True))
      else if cmd = ''amixer set Master unmute'' then (Stdout [], (fst w, False))
      else if cmd = ''amixer''
      then (Stdout (''Simple mixer control '' @ squote @ ''Master'' @ squote @ '',0''), w)
      else if take 18 cmd = ''amixer set Master '' \<and> parseInt (drop 18 cmd) \<noteq> NaN
      then (Stdout [], (case parseInt (drop 18 cmd) of Num n \<Rightarrow> nat n | _ \<Rightarrow> fst w, snd w))
      else (ExecError, w))"

text \<open>A Linux host whose mixer can be read but not changed: every other command fails.\<close>

definition readonly_mixer :: "(nat \<times> bool) shell" where
  "readonly_mixer cmd w =
     (if cmd = ''amixer get Master'' \<or> cmd = ''amixer'' then amixer_host cmd w
      else (ExecError, w))"

text \<open>Clients: two that are open, one that is closing, one whose link is broken.\<close>

definition phone :: client where
  "phone = \<lparr>cid = 1, readyState = OPEN, link_up = True\<rparr>"

definition tablet :: client where
  "tablet = \<lparr>cid = 2, readyState = OPEN, link_up = True\<rparr>"

definition closing_laptop :: client where
  "closing_laptop = \<lparr>cid = 3, readyState = CLOSING, link_up = True\<rparr>"

definition dropped_tv :: client where
  "dropped_tv = \<lparr>cid = 4, readyState = OPEN, link_up = False\<rparr>"

definition serving :: "client list \<Rightarrow> 'w \<Rightarrow> 'w state" where
  "serving cs w = (initial w)\<lparr>wss := Some cs\<rparr>"

section \<open>Lemmas about the effects\<close>

lemma calls_append [simp]: "calls (a @ b) = calls a @ calls b"
  by (simp add: calls_def)
lemma calls_Cons [simp]: "calls (e # b) = (if is_call e then e # calls b else calls b)"
  by (simp add: calls_def)
lemma calls_Nil [simp]: "calls [] = []"
  by (simp add: calls_def)

lemma broadcasts_append [simp]: "broadcasts (a @ b) = broadcasts a + broadcasts b"
  by (simp add: broadcasts_def)
lemma broadcasts_Cons [simp]: "broadcasts (e # b) = (if e = BroadcastCall then Suc (broadcasts b) else broadcasts b)"
  by (simp add: broadcasts_def)
lemma broadcasts_Nil [simp]: "broadcasts [] = 0"
  by (simp add: broadcasts_def)

lemma frames_to_append [simp]: "frames_to i (a @ b) = frames_to i a @ frames_to i b"
  by (simp add: frames_to_def)
lemma frames_to_Cons [simp]: "frames_to i (e # b) = frame_to i e @ frames_to i b"
  by (simp add: frames_to_def)
lemma frames_to_Nil [simp]: "frames_to i [] = []"
  by (simp add: frames_to_def)

lemma error_frames_append [simp]: "error_frames (a @ b) = error_frames a @ error_frames b"
  by (simp add: error_frames_def)
lemma error_frames_Cons [simp]:
  "error_frames (e # b) = (if is_error_frame e then e # error_frames b else error_frames b)"
  by (simp add: error_frames_def)
lemma error_frames_Nil [simp]: "error_frames [] = []"
  by (simp add: error_frames_def)

lemma logged_append [simp]: "logged (a @ b) = logged a + logged b"
  by (simp add: logged_def)
lemma logged_Cons [simp]: "logged (e # b) = (if is_log e then Suc (logged b) else logged b)"
  by (simp add: logged_def)
lemma logged_Nil [simp]: "logged [] = 0"
  by (simp add: logged_def)

lemma run_fields [simp]:
  "wss (run sh cmd l s) = wss s"
  "lastVolume (run sh cmd l s) = lastVolume s"
  "lastMute (run sh cmd l s) = lastMute s"
  "os (run sh cmd l s) = snd (sh cmd (os s))"
  by (simp_all add: run_def)

lemma run_trace:
  "trace (run sh cmd l s) = trace s @ Exec cmd #
     (case fst (sh cmd (os s)) of ExecError \<Rightarrow> [ConsoleError l] | Stdout out \<Rightarrow> [])"
  by (simp add: run_def)

lemma run_calls [simp]: "calls (trace (run sh cmd l s)) = calls (trace s) @ [Exec cmd]"
  by (simp add: run_trace split: exec_result.split)
lemma run_broadcasts [simp]: "broadcasts (trace (run sh cmd l s)) = broadcasts (trace s)"
  by (simp add: run_trace split: exec_result.split)
lemma run_error_frames [simp]: "error_frames (trace (run sh cmd l s)) = error_frames (trace s)"
  by (simp add: run_trace split: exec_result.split)
lemma run_frames_to [simp]: "frames_to i (trace (run sh cmd l s)) = frames_to i (trace s)"
  by (simp add: run_trace split: exec_result.split)
lemma run_logged:
  "logged (trace (run sh cmd l s)) =
     logged (trace s) + (if fst (sh cmd (os s)) = ExecError then 1 else 0)"
  by (simp add: run_trace split: exec_result.split)

lemma getVolume_supported:
  assumes "supported pf"
  shows "\<exists>v. getVolume sh pf s = (Inr v, run sh (cmd_getVolume pf) ''Error getting volume:'' s)"
  using assms
  by (auto simp: supported_def getVolume_def cmd_getVolume_def getVolumeLinux_def getVolumeMac_def
      getVolumeWindows_def execAsync_def run_def console_error_def
      split: prod.splits exec_result.splits option.splits)

lemma getMuted_supported:
  assumes "supported pf"
  shows "\<exists>m. getMuted sh pf s = (Inr m, run sh (cmd_getMuted pf) ''Error getting mute state:'' s)"
  using assms
  by (auto simp: supported_def getMuted_def cmd_getMuted_def getMutedLinux_def getMutedMac_def
      getMutedWindows_def execAsync_def run_def console_error_def
      split: prod.splits exec_result.splits option.splits)

lemma getOutputDevice_supported:
  assumes "supported pf"
  shows "\<exists>d. getOutputDevice sh pf s =
           (Inr d, run sh (cmd_getOutputDevice pf) ''Error getting output device:'' s)"
  using assms
  by (auto simp: supported_def getOutputDevice_def cmd_getOutputDevice_def getOutputDeviceLinux_def
      getOutputDeviceMac_def getOutputDeviceWindows_def execAsync_def run_def console_error_def
      split: prod.splits exec_result.splits option.splits)

lemma ToNumber_Number [simp]: "ToNumber (Number n) = Inr n"
  by (simp add: ToNumber_def ToPrimitive_def)

lemma js_add_Number [simp]: "js_add a (Number n) = Inr (Number (js_plus a n))"
  by (simp add: js_add_def ToPrimitive_def)

lemma js_sub_Number [simp]: "js_sub a (Number n) = Inr (js_minus a n)"
  by (simp add: js_sub_def)

lemma Math_min_of_Number [simp]: "Math_min_of a (Number n) = Inr (Math_min a n)"
  by (simp add: Math_min_of_def)

lemma setVolume_supported:
  assumes "supported pf" and "ToNumber v = Inr n"
  shows "setVolume sh pf v s =
           (Inr (), run sh (cmd_setVolume pf (Math_max (Num 0) (Math_min (Num 100) n)))
                      ''Error setting volume:'' s)"
  using assms
  by (auto simp: supported_def setVolume_def cmd_setVolume_def setVolumeLinux_def setVolumeMac_def
      setVolumeWindows_def execAsync_def run_def console_error_def Let_def Math_min_of_def
      split: prod.splits exec_result.splits)

lemma setVolume_Number:
  assumes "supported pf"
  shows "setVolume sh pf (Number n) s =
           (Inr (), run sh (cmd_setVolume pf (Math_max (Num 0) (Math_min (Num 100) n)))
                      ''Error setting volume:'' s)"
  using assms by (rule setVolume_supported) simp

lemma setMuted_supported:
  assumes "supported pf"
  shows "setMuted sh pf b s = (Inr (), run sh (cmd_setMuted pf b) ''Error setting mute state:'' s)"
  using assms
  by (auto simp: supported_def setMuted_def cmd_setMuted_def setMutedLinux_def setMutedMac_def
      setMutedWindows_def execAsync_def run_def console_error_def
      split: prod.splits exec_result.splits)



lemma forEach_send_eq:
  "forEach_send cs msg s =
     (Inr (), s\<lparr>trace := trace s @ map (frame_event msg) (filter is_open cs)\<rparr>)"
  by (induction cs arbitrary: s) (simp_all add: send_def is_open_def frame_event_def)

lemma getVolume_fst_os: "os s = os s' \<Longrightarrow> fst (getVolume sh pf s) = fst (getVolume sh pf s')"
  by (auto simp: getVolume_def getVolumeLinux_def getVolumeMac_def
      getVolumeWindows_def execAsync_def
      split: prod.splits exec_result.splits option.splits)

lemma getMuted_fst_os: "os s = os s' \<Longrightarrow> fst (getMuted sh pf s) = fst (getMuted sh pf s')"
  by (auto simp: getMuted_def getMutedLinux_def getMutedMac_def
      getMutedWindows_def execAsync_def
      split: prod.splits exec_result.splits option.splits)

lemma getOutputDevice_fst_os:
  "os s = os s' \<Longrightarrow> fst (getOutputDevice sh pf s) = fst (getOutputDevice sh pf s')"
  by (auto simp: getOutputDevice_def getOutputDeviceLinux_def getOutputDeviceMac_def
      getOutputDeviceWindows_def execAsync_def
      split: prod.splits exec_result.splits option.splits)

lemma getVolume_Inr_supported: "getVolume sh pf s = (Inr v, s1) \<Longrightarrow> supported pf"
  by (auto simp: getVolume_def supported_def split: if_splits)

lemma getVolume_at:
  assumes "getVolume sh pf s = (Inr v, s1)" and "os s' = os s"
  shows "getVolume sh pf s' = (Inr v, run sh (cmd_getVolume pf) ''Error getting volume:'' s')"
proof -
  have sup: "supported pf" using assms(1) by (rule getVolume_Inr_supported)
  obtain v' where e: "getVolume sh pf s' = (Inr v', run sh (cmd_getVolume pf) ''Error getting volume:'' s')"
    using getVolume_supported[OF sup] by blast
  have "fst (getVolume sh pf s') = fst (getVolume sh pf s)"
    using assms(2) by (rule getVolume_fst_os)
  with e assms(1) show ?thesis by simp
qed

lemma getMuted_at:
  assumes "getMuted sh pf s = (Inr v, s1)" and "os s' = os s"
  shows "getMuted sh pf s' = (Inr v, run sh (cmd_getMuted pf) ''Error getting mute state:'' s')"
proof -
  have sup: "supported pf" using assms(1) by (auto simp: getMuted_def supported_def split: if_splits)
  obtain v' where e: "getMuted sh pf s' = (Inr v', run sh (cmd_getMuted pf) ''Error getting mute state:'' s')"
    using getMuted_supported[OF sup] by blast
  have "fst (getMuted sh pf s') = fst (getMuted sh pf s)"
    using assms(2) by (rule getMuted_fst_os)
  with e assms(1) show ?thesis by simp
qed

lemma getOutputDevice_at:
  assumes "getOutputDevice sh pf s = (Inr v, s1)" and "os s' = os s"
  shows "getOutputDevice sh pf s' =
           (Inr v, run sh (cmd_getOutputDevice pf) ''Error getting output device:'' s')"
proof -
  have sup: "supported pf" using assms(1) by (auto simp: getOutputDevice_def supported_def split: if_splits)
  obtain v' where e: "getOutputDevice sh pf s' = (Inr v', run sh (cmd_getOutputDevice pf) ''Error getting output device:'' s')"
    using getOutputDevice_supported[OF sup] by blast
  have "fst (getOutputDevice sh pf s') = fst (getOutputDevice sh pf s)"
    using assms(2) by (rule getOutputDevice_fst_os)
  with e assms(1) show ?thesis by simp
qed

lemma broadcastState_None: "wss s = None \<Longrightarrow> broadcastState sh pf s = s\<lparr>trace := trace s @ [BroadcastCall]\<rparr>"
  by (simp add: broadcastState_def Let_def)

lemma broadcastState_Some:
  assumes w: "wss s = Some cs"
    and gv: "getVolume sh pf s = (Inr volume, s1)"
    and gm: "getMuted sh pf s1 = (Inr muted, s2)"
    and gd: "getOutputDevice sh pf s2 = (Inr device, s3)"
  shows "broadcastState sh pf s =
           (let q = query3 sh pf (s\<lparr>trace := trace s @ [BroadcastCall]\<rparr>)
            in q\<lparr>trace := trace q @ map (frame_event (StateMsg volume muted device))
                                        (filter is_open cs)\<rparr>)"
proof -
  let ?b = "s\<lparr>trace := trace s @ [BroadcastCall]\<rparr>"
  let ?r1 = "run sh (cmd_getVolume pf) ''Error getting volume:'' ?b"
  let ?r2 = "run sh (cmd_getMuted pf) ''Error getting mute state:'' ?r1"
  have s1: "s1 = run sh (cmd_getVolume pf) ''Error getting volume:'' s"
    using getVolume_at[OF gv, of s] gv by simp
  have s2: "s2 = run sh (cmd_getMuted pf) ''Error getting mute state:'' s1"
    using getMuted_at[OF gm, of s1] gm by simp
  have e1: "getVolume sh pf ?b = (Inr volume, ?r1)"
    by (rule getVolume_at[OF gv]) simp
  have e2: "getMuted sh pf ?r1 = (Inr muted, ?r2)"
    by (rule getMuted_at[OF gm]) (simp add: s1)
  have e3: "getOutputDevice sh pf ?r2 = (Inr device, query3 sh pf ?b)"
    unfolding query3_def
    by (rule getOutputDevice_at[OF gd]) (simp add: s1 s2)
  show ?thesis
    using w by (simp add: broadcastState_def Let_def e1 e2 e3 forEach_send_eq query3_def)
qed

lemma query3_simps [simp]:
  "wss (query3 sh pf s) = wss s"
  "lastVolume (query3 sh pf s) = lastVolume s"
  "lastMute (query3 sh pf s) = lastMute s"
  "calls (trace (query3 sh pf s)) =
     calls (trace s) @ [Exec (cmd_getVolume pf), Exec (cmd_getMuted pf), Exec (cmd_getOutputDevice pf)]"
  "broadcasts (trace (query3 sh pf s)) = broadcasts (trace s)"
  "error_frames (trace (query3 sh pf s)) = error_frames (trace s)"
  "frames_to i (trace (query3 sh pf s)) = frames_to i (trace s)"
  by (simp_all add: query3_def)



lemma frame_event_proj [simp]:
  "calls (map (frame_event msg) cs) = []"
  "broadcasts (map (frame_event msg) cs) = 0"
  "logged (map (frame_event msg) cs) = 0"
  "error_frames (map (frame_event (StateMsg v m d)) cs) = []"
  by (induction cs) (simp_all add: frame_event_def)

lemma run_logged_le: "logged (trace s) \<le> logged (trace (run sh cmd l s))"
  by (simp add: run_logged)

lemma query3_logged_le: "logged (trace s) \<le> logged (trace (query3 sh pf s))"
  unfolding query3_def
  by (meson run_logged_le order_trans)

lemma broadcastState_supported:
  assumes sup: "supported pf"
  shows "calls (trace (broadcastState sh pf s)) =
           calls (trace s) @ BroadcastCall # broadcast_queries pf (wss s)"
    and "broadcasts (trace (broadcastState sh pf s)) = Suc (broadcasts (trace s))"
    and "error_frames (trace (broadcastState sh pf s)) = error_frames (trace s)"
    and "logged (trace s) \<le> logged (trace (broadcastState sh pf s))"
    and "wss (broadcastState sh pf s) = wss s"
    and "lastVolume (broadcastState sh pf s) = lastVolume s"
    and "lastMute (broadcastState sh pf s) = lastMute s"
proof -
  obtain v s1 where gv: "getVolume sh pf s = (Inr v, s1)"
    using getVolume_supported[OF sup] by blast
  obtain m s2 where gm: "getMuted sh pf s1 = (Inr m, s2)"
    using getMuted_supported[OF sup] by blast
  obtain d s3 where gd: "getOutputDevice sh pf s2 = (Inr d, s3)"
    using getOutputDevice_supported[OF sup] by blast
  let ?b = "s\<lparr>trace := trace s @ [BroadcastCall]\<rparr>"
  have l: "logged (trace s) \<le> logged (trace (query3 sh pf ?b))"
    using query3_logged_le[of ?b sh pf] by simp
  show "calls (trace (broadcastState sh pf s)) =
           calls (trace s) @ BroadcastCall # broadcast_queries pf (wss s)"
    by (cases "wss s")
       (simp_all add: broadcastState_None broadcastState_Some[OF _ gv gm gd] Let_def
          broadcast_queries_def)
  show "broadcasts (trace (broadcastState sh pf s)) = Suc (broadcasts (trace s))"
    by (cases "wss s")
       (simp_all add: broadcastState_None broadcastState_Some[OF _ gv gm gd] Let_def)
  show "error_frames (trace (broadcastState sh pf s)) = error_frames (trace s)"
    by (cases "wss s")
       (simp_all add: broadcastState_None broadcastState_Some[OF _ gv gm gd] Let_def)
  show "logged (trace s) \<le> logged (trace (broadcastState sh pf s))"
    using l
    by (cases "wss s")
       (simp_all add: broadcastState_None broadcastState_Some[OF _ gv gm gd] Let_def)
  show "wss (broadcastState sh pf s) = wss s"
    by (cases "wss s")
       (simp_all add: broadcastState_None broadcastState_Some[OF _ gv gm gd] Let_def)
  show "lastVolume (broadcastState sh pf s) = lastVolume s"
    by (cases "wss s")
       (simp_all add: broadcastState_None broadcastState_Some[OF _ gv gm gd] Let_def)
  show "lastMute (broadcastState sh pf s) = lastMute s"
    by (cases "wss s")
       (simp_all add: broadcastState_None broadcastState_Some[OF _ gv gm gd] Let_def)
qed

lemma clamp_Num: "Math_max (Num 0) (Math_min (Num 100) (Num v)) = Num (max 0 (min 100 v))"
  by (simp add: max.commute min.commute)

subsection \<open>No handler reads the trace\<close>


lemma prepend_fields [simp]:
  "os (prepend p s) = os s" "wss (prepend p s) = wss s"
  "lastVolume (prepend p s) = lastVolume s" "lastMute (prepend p s) = lastMute s"
  "trace (prepend p s) = p @ trace s"
  by (simp_all add: prepend_def)

lemma execAsync_prepend:
  "execAsync sh cmd (prepend p s) = apsnd (prepend p) (execAsync sh cmd s)"
  by (simp add: execAsync_def prepend_def split: prod.splits)

lemma console_error_prepend: "console_error l (prepend p s) = prepend p (console_error l s)"
  by (simp add: console_error_def prepend_def)

lemma send_prepend: "send c msg (prepend p s) = apsnd (prepend p) (send c msg s)"
  by (simp add: send_def prepend_def)

lemma getVolume_prepend: "getVolume sh pf (prepend p s) = apsnd (prepend p) (getVolume sh pf s)"
  by (auto simp: getVolume_def getVolumeLinux_def getVolumeMac_def getVolumeWindows_def
      execAsync_prepend console_error_prepend split: prod.splits exec_result.splits option.splits)

lemma getMuted_prepend: "getMuted sh pf (prepend p s) = apsnd (prepend p) (getMuted sh pf s)"
  by (auto simp: getMuted_def getMutedLinux_def getMutedMac_def getMutedWindows_def
      execAsync_prepend console_error_prepend split: prod.splits exec_result.splits option.splits)

lemma getOutputDevice_prepend:
  "getOutputDevice sh pf (prepend p s) = apsnd (prepend p) (getOutputDevice sh pf s)"
  by (auto simp: getOutputDevice_def getOutputDeviceLinux_def getOutputDeviceMac_def
      getOutputDeviceWindows_def
      execAsync_prepend console_error_prepend split: prod.splits exec_result.splits option.splits)

lemma setVolume_prepend:
  "setVolume sh pf v (prepend p s) = apsnd (prepend p) (setVolume sh pf v s)"
  by (auto simp: setVolume_def setVolumeLinux_def setVolumeMac_def setVolumeWindows_def Let_def
      execAsync_prepend console_error_prepend
      split: prod.splits exec_result.splits option.splits sum.splits)

lemma setMuted_prepend:
  "setMuted sh pf b (prepend p s) = apsnd (prepend p) (setMuted sh pf b s)"
  by (auto simp: setMuted_def setMutedLinux_def setMutedMac_def setMutedWindows_def
      execAsync_prepend console_error_prepend split: prod.splits exec_result.splits option.splits)

lemma forEach_send_prepend:
  "forEach_send cs msg (prepend p s) = apsnd (prepend p) (forEach_send cs msg s)"
  by (simp add: forEach_send_eq prepend_def)

lemma sendState_prepend: "sendState sh pf ws (prepend p s) = prepend p (sendState sh pf ws s)"
  by (auto simp: sendState_def getVolume_prepend getMuted_prepend getOutputDevice_prepend
      send_prepend console_error_prepend split: prod.splits sum.splits)

lemma broadcastState_prepend:
  "broadcastState sh pf (prepend p s) = prepend p (broadcastState sh pf s)"
proof -
  have m: "(prepend p s)\<lparr>trace := trace (prepend p s) @ [BroadcastCall]\<rparr>
             = prepend p (s\<lparr>trace := trace s @ [BroadcastCall]\<rparr>)"
    by (simp add: prepend_def)
  show ?thesis
    unfolding broadcastState_def Let_def m
    by (auto simp: getVolume_prepend getMuted_prepend getOutputDevice_prepend
        forEach_send_prepend console_error_prepend split: prod.splits sum.splits option.splits)
qed

lemma handleMessage_prepend:
  "handleMessage sh pf data ws (prepend p s) = apsnd (prepend p) (handleMessage sh pf data ws s)"
proof (cases data)
  case JsonNull
  then show ?thesis by (simp add: handleMessage_def)
next
  case (JsonDoc action v)
  show ?thesis
  proof (cases "action = Some ''setVolume''")
    case True
    then show ?thesis unfolding JsonDoc
      by (simp add: handleMessage_def getVolume_prepend getMuted_prepend setVolume_prepend
            setMuted_prepend sendState_prepend broadcastState_prepend send_prepend
            split: prod.split sum.split)
  next
    case n0: False
    show ?thesis
    proof (cases "action = Some ''getState''")
      case True
      then show ?thesis unfolding JsonDoc
        by (simp add: handleMessage_def getVolume_prepend getMuted_prepend setVolume_prepend
            setMuted_prepend sendState_prepend broadcastState_prepend send_prepend
            split: prod.split sum.split)
    next
      case n1: False
      show ?thesis
      proof (cases "action = Some ''increaseVolume''")
        case True
        then show ?thesis unfolding JsonDoc
          by (simp add: handleMessage_def getVolume_prepend getMuted_prepend setVolume_prepend
            setMuted_prepend sendState_prepend broadcastState_prepend send_prepend
            split: prod.split sum.split)
      next
        case n2: False
        show ?thesis
        proof (cases "action = Some ''decreaseVolume''")
          case True
          then show ?thesis unfolding JsonDoc
            by (simp add: handleMessage_def getVolume_prepend getMuted_prepend setVolume_prepend
            setMuted_prepend sendState_prepend broadcastState_prepend send_prepend
            split: prod.split sum.split)
        next
          case n3: False
          show ?thesis
          proof (cases "action = Some ''mute''")
            case True
            then show ?thesis unfolding JsonDoc
              by (simp add: handleMessage_def getVolume_prepend getMuted_prepend setVolume_prepend
            setMuted_prepend sendState_prepend broadcastState_prepend send_prepend
            split: prod.split sum.split)
          next
            case n4: False
            show ?thesis
            proof (cases "action = Some ''unmute''")
              case True
              then show ?thesis unfolding JsonDoc
                by (simp add: handleMessage_def getVolume_prepend getMuted_prepend setVolume_prepend
            setMuted_prepend sendState_prepend broadcastState_prepend send_prepend
            split: prod.split sum.split)
            next
              case n5: False
              show ?thesis
              proof (cases "action = Some ''toggleMute''")
                case True
                then show ?thesis unfolding JsonDoc
                  by (simp add: handleMessage_def getVolume_prepend getMuted_prepend setVolume_prepend
            setMuted_prepend sendState_prepend broadcastState_prepend send_prepend
            split: prod.split sum.split)
              next
                case n6: False
                show ?thesis
                proof (cases "action = Some ''isMuted''")
                  case True
                  then show ?thesis unfolding JsonDoc
                    by (simp add: handleMessage_def getVolume_prepend getMuted_prepend setVolume_prepend
            setMuted_prepend sendState_prepend broadcastState_prepend send_prepend
            split: prod.split sum.split)
                next
                  case n7: False
                  show ?thesis unfolding JsonDoc using n0 n1 n2 n3 n4 n5 n6 n7
                    by (simp add: handleMessage_def getVolume_prepend getMuted_prepend setVolume_prepend
            setMuted_prepend sendState_prepend broadcastState_prepend send_prepend
            split: prod.split sum.split)
                qed
              qed
            qed
          qed
        qed
      qed
    qed
  qed
qed

lemma on_message_prepend:
  "on_message sh pf msg ws (prepend p s) = apsnd (prepend p) (on_message sh pf msg ws s)"
  by (cases msg)
     (auto simp: on_message_def handleMessage_prepend send_prepend console_error_prepend
        split: prod.splits sum.splits js_error.splits)

lemma prepend_cleared: "prepend t (s\<lparr>trace := []\<rparr>) = s\<lparr>trace := t\<rparr>"
  by (simp add: prepend_def)

lemma on_message_cleared:
  "on_message sh pf msg ws (s\<lparr>trace := t\<rparr>)
     = apsnd (prepend t) (on_message sh pf msg ws (s\<lparr>trace := []\<rparr>))"
  using on_message_prepend[of sh pf msg ws t "s\<lparr>trace := []\<rparr>"]
  by (simp only: prepend_cleared)

lemma on_message_trace_extends:
  "trace (snd (on_message sh pf msg ws s))
     = trace s @ trace (snd (on_message sh pf msg ws (s\<lparr>trace := []\<rparr>)))"
  using on_message_cleared[where s = s and t = "trace s" and sh = sh and pf = pf and msg = msg and ws = ws] by simp

lemma on_message_fst_trace:
  "fst (on_message sh pf msg ws (s\<lparr>trace := t\<rparr>)) = fst (on_message sh pf msg ws s)"
  using on_message_cleared[where s = s and t = "trace s" and sh = sh and pf = pf and msg = msg and ws = ws]
    on_message_cleared[where s = s and t = t and sh = sh and pf = pf and msg = msg and ws = ws]
  by simp

lemma frames_to_fanout:
  "distinct (map cid cs) \<Longrightarrow>
   frames_to i (map (frame_event msg) (filter is_open cs))
     = (if \<exists>c\<in>set cs. cid c = i \<and> is_open c \<and> link_up c then [msg] else [])"
proof (induction cs)
  case Nil
  then show ?case by simp
next
  case (Cons x xs)
  then have d: "distinct (map cid xs)" and nx: "cid x \<notin> cid ` set xs" by simp_all
  show ?case
  proof (cases "cid x = i")
    case True
    then have "\<not> (\<exists>c\<in>set xs. cid c = i \<and> is_open c \<and> link_up c)"
      using nx by (metis imageI)
    then show ?thesis
      using True Cons.IH[OF d] by (auto simp: frame_event_def)
  next
    case False
    then show ?thesis
      using Cons.IH[OF d] by (auto simp: frame_event_def)
  qed
qed

subsection \<open>Effects of a broadcast\<close>

lemma effects_append [simp]: "effects (a @ b) = effects a @ effects b"
  by (simp add: effects_def)
lemma effects_Cons [simp]: "effects (e # b) = (if is_log e then effects b else e # effects b)"
  by (simp add: effects_def)
lemma effects_Nil [simp]: "effects [] = []"
  by (simp add: effects_def)

lemma run_effects [simp]: "effects (trace (run sh cmd l s)) = effects (trace s) @ [Exec cmd]"
  by (simp add: run_trace split: exec_result.split)

lemma query3_effects [simp]:
  "effects (trace (query3 sh pf s)) =
     effects (trace s) @ [Exec (cmd_getVolume pf), Exec (cmd_getMuted pf), Exec (cmd_getOutputDevice pf)]"
  by (simp add: query3_def)

lemma frame_event_effects [simp]: "effects (map (frame_event msg) cs) = map (frame_event msg) cs"
  by (induction cs) (simp_all add: frame_event_def)

lemma broadcastState_effects:
  assumes gv: "getVolume sh pf s = (Inr volume, s1)"
    and gm: "getMuted sh pf s1 = (Inr muted, s2)"
    and gd: "getOutputDevice sh pf s2 = (Inr device, s3)"
  shows "effects (trace (broadcastState sh pf s))
           = effects (trace s) @ BroadcastCall # broadcast_queries pf (wss s)
               @ fanout (StateMsg volume muted device) (wss s)"
proof (cases "wss s")
  case None
  then show ?thesis
    by (simp add: broadcastState_None broadcast_queries_def fanout_def)
next
  case (Some cs)
  then show ?thesis
    by (simp add: broadcastState_Some[OF Some gv gm gd] Let_def broadcast_queries_def fanout_def)
qed

subsection \<open>Replaying a trace\<close>

lemma audited_refl: "audited sh s s"
  by (simp add: audited_def)

lemma audited_trans:
  assumes "audited sh a b" and "audited sh b c"
  shows "audited sh a c"
proof -
  obtain e1 where 1: "trace b = trace a @ e1"
      "foldl (audit_step sh) (True, os a, False) e1 = (True, os b, False)"
    using assms(1) by (auto simp: audited_def)
  obtain e2 where 2: "trace c = trace b @ e2"
      "foldl (audit_step sh) (True, os b, False) e2 = (True, os c, False)"
    using assms(2) by (auto simp: audited_def)
  have "trace c = trace a @ (e1 @ e2)" using 1(1) 2(1) by simp
  moreover have "foldl (audit_step sh) (True, os a, False) (e1 @ e2) = (True, os c, False)"
    by (simp add: 1(2) 2(2))
  ultimately show ?thesis unfolding audited_def by blast
qed

lemma audited_run:
  assumes "l \<in> set wrapper_labels"
  shows "audited sh s (run sh cmd l s)"
  unfolding audited_def using assms
  by (intro exI[of _ "Exec cmd # (case fst (sh cmd (os s)) of ExecError \<Rightarrow> [ConsoleError l]
                                     | Stdout out \<Rightarrow> [])"])
     (simp add: run_def split: exec_result.split)

lemma audit_quiet:
  "list_all (\<lambda>e. \<not> is_call e \<or> e = BroadcastCall) evs \<Longrightarrow>
     foldl (audit_step sh) (True, w, False) evs = (True, w, False)"
proof (induction evs)
  case Nil
  then show ?case by simp
next
  case (Cons e evs)
  then show ?case by (cases e) simp_all
qed

lemma audited_quiet:
  assumes "list_all (\<lambda>e. \<not> is_call e \<or> e = BroadcastCall) evs"
  shows "audited sh s (s\<lparr>trace := trace s @ evs\<rparr>)"
  unfolding audited_def
  by (rule exI[of _ evs]) (simp add: audit_quiet[OF assms])

lemma frames_quiet: "list_all (\<lambda>e. \<not> is_call e \<or> e = BroadcastCall) (map (frame_event msg) cs)"
  by (induction cs) (simp_all add: frame_event_def)

lemma audited_query3: "audited sh s (query3 sh pf s)"
  unfolding query3_def
  by (intro audited_trans[OF audited_run audited_trans[OF audited_run audited_run]])
     (simp_all add: wrapper_labels_def)

lemma audited_broadcastState:
  assumes sup: "supported pf"
  shows "audited sh s (broadcastState sh pf s)"
proof -
  obtain v s1 where gv: "getVolume sh pf s = (Inr v, s1)"
    using getVolume_supported[OF sup] by blast
  obtain m s2 where gm: "getMuted sh pf s1 = (Inr m, s2)"
    using getMuted_supported[OF sup] by blast
  obtain d s3 where gd: "getOutputDevice sh pf s2 = (Inr d, s3)"
    using getOutputDevice_supported[OF sup] by blast
  let ?b = "s\<lparr>trace := trace s @ [BroadcastCall]\<rparr>"
  have b: "audited sh s ?b" by (rule audited_quiet) simp
  show ?thesis
  proof (cases "wss s")
    case None
    then show ?thesis using b by (simp add: broadcastState_None)
  next
    case (Some cs)
    let ?q = "query3 sh pf ?b"
    have q: "audited sh ?b ?q" by (rule audited_query3)
    have f: "audited sh ?q (?q\<lparr>trace := trace ?q @ map (frame_event (StateMsg v m d))
                                                      (filter is_open cs)\<rparr>)"
      by (rule audited_quiet) (rule frames_quiet)
    show ?thesis
      unfolding broadcastState_Some[OF Some gv gm gd] Let_def
      by (rule audited_trans[OF b audited_trans[OF q f]])
  qed
qed

lemma audited_failures_logged:
  assumes "audited sh s s1"
  shows "failures_logged sh (os s) (new_events s s1)"
  using assms by (auto simp: audited_def failures_logged_def new_events_def)

subsection \<open>Values that convert\<close>

lemma converts_ToNumber: "converts v \<Longrightarrow> \<exists>n. ToNumber v = Inr n"
  by (auto simp: converts_def ToNumber_def split: sum.splits)

lemma ToPrimitive_result:
  "ToPrimitive v = Inr p \<Longrightarrow> ToPrimitive p = Inr p"
  by (auto simp: ToPrimitive_def split: jsval.splits sum.splits)

lemma converts_js_add: "converts v \<Longrightarrow> \<exists>r n. js_add c v = Inr r \<and> Math_min_of a r = Inr n"
  by (auto simp: converts_def js_add_def Math_min_of_def ToNumber_def ToPrimitive_def
      split: sum.splits jsval.splits)

lemma converts_js_sub: "converts v \<Longrightarrow> \<exists>n. js_sub c v = Inr n"
  by (auto simp: converts_def js_sub_def ToNumber_def split: sum.splits)

subsection \<open>The six requests that change the backend\<close>

lemma mutation_shape:
  assumes sup: "supported pf"
    and mut: "action \<in> {Some ''setVolume'', Some ''increaseVolume'', Some ''decreaseVolume'',
                            Some ''mute'', Some ''unmute'', Some ''toggleMute''}"
    and cv: "converts v"
  shows "\<exists>x. on_message sh pf (Parsed (JsonDoc action v)) ws s = (Inr (), broadcastState sh pf x)
           \<and> error_frames (trace x) = error_frames (trace s)
           \<and> broadcasts (trace x) = broadcasts (trace s)
           \<and> audited sh s x"
proof -
  obtain c where gv: "getVolume sh pf s
      = (Inr c, run sh (cmd_getVolume pf) ''Error getting volume:'' s)"
    using getVolume_supported[OF sup] by blast
  obtain m where gm: "getMuted sh pf s
      = (Inr m, run sh (cmd_getMuted pf) ''Error getting mute state:'' s)"
    using getMuted_supported[OF sup] by blast
  obtain n where n: "ToNumber v = Inr n"
    using converts_ToNumber[OF cv] by blast
  obtain r up where up: "js_add c v = Inr r" "Math_min_of (Num 100) r = Inr up"
    using converts_js_add[OF cv] by blast
  obtain down where down: "js_sub c v = Inr down"
    using converts_js_sub[OF cv] by blast
  have a1: "audited sh s (run sh cmd ''Error setting volume:'' s)"
    "audited sh s (run sh cmd ''Error setting mute state:'' s)" for cmd
    by (rule audited_run, simp add: wrapper_labels_def)+
  have a2: "audited sh s (run sh cmd ''Error setting volume:''
                             (run sh (cmd_getVolume pf) ''Error getting volume:'' s))"
    "audited sh s (run sh cmd ''Error setting mute state:''
                     (run sh (cmd_getMuted pf) ''Error getting mute state:'' s))" for cmd
    by (rule audited_trans[OF audited_run audited_run], simp_all add: wrapper_labels_def)+
  note h = on_message_def handleMessage_def gv gm n up down setVolume_supported[OF sup n]
    setVolume_Number[OF sup] setMuted_supported[OF sup] a1 a2
  from mut have "action = Some ''setVolume'' \<or> action = Some ''increaseVolume''
      \<or> action = Some ''decreaseVolume'' \<or> action = Some ''mute''
      \<or> action = Some ''unmute'' \<or> action = Some ''toggleMute''"
    by simp
  then show ?thesis
  proof (elim disjE)
    assume "action = Some ''setVolume''"
    then show ?thesis
      by (intro exI[of _ "run sh (cmd_setVolume pf (Math_max (Num 0) (Math_min (Num 100) n)))
                            ''Error setting volume:'' s"]) (simp add: h)
  next
    assume "action = Some ''increaseVolume''"
    then show ?thesis
      by (intro exI[of _ "run sh (cmd_setVolume pf (Math_max (Num 0) (Math_min (Num 100) up)))
                            ''Error setting volume:''
                            (run sh (cmd_getVolume pf) ''Error getting volume:'' s)"])
         (simp add: h)
  next
    assume "action = Some ''decreaseVolume''"
    then show ?thesis
      by (intro exI[of _ "run sh (cmd_setVolume pf
                                   (Math_max (Num 0) (Math_min (Num 100) (Math_max (Num 0) down))))
                            ''Error setting volume:''
                            (run sh (cmd_getVolume pf) ''Error getting volume:'' s)"])
         (simp add: h)
  next
    assume "action = Some ''mute''"
    then show ?thesis
      by (intro exI[of _ "run sh (cmd_setMuted pf True) ''Error setting mute state:'' s"])
         (simp add: h)
  next
    assume "action = Some ''unmute''"
    then show ?thesis
      by (intro exI[of _ "run sh (cmd_setMuted pf False) ''Error setting mute state:'' s"])
         (simp add: h)
  next
    assume "action = Some ''toggleMute''"
    then show ?thesis
      by (intro exI[of _ "run sh (cmd_setMuted pf (\<not> m)) ''Error setting mute state:''
                            (run sh (cmd_getMuted pf) ''Error getting mute state:'' s)"])
         (simp add: h)
  qed
qed

lemma unsupported_shape:
  assumes uns: "\<not> supported pf" and o: "readyState ws = OPEN"
    and mut: "action \<in> {Some ''setVolume'', Some ''increaseVolume'', Some ''decreaseVolume'',
                            Some ''mute'', Some ''unmute'', Some ''toggleMute''}"
    and cv: "converts v"
  shows "on_message sh pf (Parsed (JsonDoc action v)) ws s
           = (Inr (), s\<lparr>trace := trace s @ [ConsoleError ''Error handling message:'',
                          frame_event (ErrorMsg (''Unsupported platform: '' @ pf)) ws]\<rparr>)"
proof -
  have p: "pf \<noteq> ''linux''" "pf \<noteq> ''darwin''" "pf \<noteq> ''win32''"
    using uns by (simp_all add: supported_def)
  obtain n where n: "ToNumber v = Inr n"
    using converts_ToNumber[OF cv] by blast
  note h = on_message_def handleMessage_def getVolume_def setVolume_def getMuted_def
    setMuted_def unsupported_def send_def console_error_def frame_event_def Let_def p o
    Math_min_of_def n
  from mut have "action = Some ''setVolume'' \<or> action = Some ''increaseVolume''
      \<or> action = Some ''decreaseVolume'' \<or> action = Some ''mute''
      \<or> action = Some ''unmute'' \<or> action = Some ''toggleMute''"
    by simp
  then show ?thesis
  proof (elim disjE)
    assume "action = Some ''setVolume''" then show ?thesis by (simp add: h)
  next
    assume "action = Some ''increaseVolume''" then show ?thesis by (simp add: h)
  next
    assume "action = Some ''decreaseVolume''" then show ?thesis by (simp add: h)
  next
    assume "action = Some ''mute''" then show ?thesis by (simp add: h)
  next
    assume "action = Some ''unmute''" then show ?thesis by (simp add: h)
  next
    assume "action = Some ''toggleMute''" then show ?thesis by (simp add: h)
  qed
qed

subsection \<open>The \<^verbatim>\<open>toggleMute\<close> callback in its parts\<close>

text \<open>Run one after the other, with nothing in between, the parts are the callback.\<close>

lemma toggleMute_in_parts:
  "snd (on_message sh pf (Parsed (JsonDoc (Some ''toggleMute'') v)) ws s)
     = (case getMuted sh pf s of (answer, s1) \<Rightarrow>
        case toggleMute_apply sh pf answer s1 of (outcome, s2) \<Rightarrow>
          toggleMute_finish sh pf ws outcome s2)"
  by (simp add: on_message_def handleMessage_def toggleMute_apply_def toggleMute_finish_def
      split: prod.split sum.split js_error.split)

subsection \<open>The polling step\<close>

lemma poll_tick_at_most_one_broadcast:
  "broadcasts (trace (poll_tick sh pf s)) \<le> Suc (broadcasts (trace s))"
proof (cases "supported pf")
  case True
  obtain v where gv: "getVolume sh pf s = (Inr v, run sh (cmd_getVolume pf) ''Error getting volume:'' s)"
    using getVolume_supported[OF True] by blast
  obtain m where gm: "getMuted sh pf (run sh (cmd_getVolume pf) ''Error getting volume:'' s)
      = (Inr m, run sh (cmd_getMuted pf) ''Error getting mute state:''
                  (run sh (cmd_getVolume pf) ''Error getting volume:'' s))"
    using getMuted_supported[OF True] by blast
  show ?thesis
    by (simp add: poll_tick_def gv gm broadcastState_supported[OF True])
next
  case False
  then have "getVolume sh pf s = (Inl (unsupported pf), s)"
    by (simp add: getVolume_def supported_def)
  then show ?thesis by (simp add: poll_tick_def console_error_def)
qed

lemma poll_tick_unchanged_number:
  assumes gv: "getVolume sh pf s = (Inr (Num v), s1)"
    and gm: "getMuted sh pf s1 = (Inr m, s2)"
    and "lastVolume s = Some (Num v)" and "lastMute s = Some m"
  shows "poll_tick sh pf s = s2"
proof -
  have "s1 = run sh (cmd_getVolume pf) ''Error getting volume:'' s"
    using getVolume_at[OF gv, of s] gv by simp
  moreover have "s2 = run sh (cmd_getMuted pf) ''Error getting mute state:'' s1"
    using getMuted_at[OF gm, of s1] gm by simp
  ultimately have "lastVolume s2 = Some (Num v)" "lastMute s2 = Some m"
    using assms(3,4) by simp_all
  then show ?thesis
    by (simp add: poll_tick_def gv gm volume_changed_def mute_changed_def)
qed

lemma poll_tick_changed:
  assumes gv: "getVolume sh pf s = (Inr volume, s1)"
    and gm: "getMuted sh pf s1 = (Inr muted, s2)"
    and ch: "volume_changed volume (lastVolume s) \<or> mute_changed muted (lastMute s)"
  shows "poll_tick sh pf s
           = broadcastState sh pf (s2\<lparr>lastVolume := Some volume, lastMute := Some muted\<rparr>)"
proof -
  have "s1 = run sh (cmd_getVolume pf) ''Error getting volume:'' s"
    using getVolume_at[OF gv, of s] gv by simp
  moreover have "s2 = run sh (cmd_getMuted pf) ''Error getting mute state:'' s1"
    using getMuted_at[OF gm, of s1] gm by simp
  ultimately have "lastVolume s2 = lastVolume s" "lastMute s2 = lastMute s"
    by simp_all
  then show ?thesis
    using ch by (simp add: poll_tick_def gv gm)
qed

subsection \<open>Fallbacks of the queries\<close>

lemma getVolume_default_on_failure:
  assumes "supported pf" and "fst (sh (cmd_getVolume pf) (os s)) = ExecError"
  shows "fst (getVolume sh pf s) = Inr (Num 0)"
  using assms unfolding supported_def
  by (elim disjE)
     (auto simp: getVolume_def cmd_getVolume_def getVolumeLinux_def getVolumeMac_def
        getVolumeWindows_def execAsync_def split: prod.splits exec_result.splits)

lemma getMuted_default_on_failure:
  assumes "supported pf" and "fst (sh (cmd_getMuted pf) (os s)) = ExecError"
  shows "fst (getMuted sh pf s) = Inr False"
  using assms unfolding supported_def
  by (elim disjE)
     (auto simp: getMuted_def cmd_getMuted_def getMutedLinux_def getMutedMac_def
        getMutedWindows_def execAsync_def split: prod.splits exec_result.splits)

lemma getOutputDevice_default_on_failure:
  assumes "supported pf" and "fst (sh (cmd_getOutputDevice pf) (os s)) = ExecError"
  shows "fst (getOutputDevice sh pf s) = Inr (default_device pf)"
  using assms unfolding supported_def
  by (elim disjE)
     (auto simp: getOutputDevice_def cmd_getOutputDevice_def getOutputDeviceLinux_def
        getOutputDeviceMac_def getOutputDeviceWindows_def default_device_def execAsync_def
        split: prod.splits exec_result.splits)

lemma getVolumeLinux_unparseable:
  "sh cmd_getVolumeLinux (os s) = (Stdout out, w) \<Longrightarrow> match_volume out = None \<Longrightarrow>
     fst (getVolume sh ''linux'' s) = Inr (Num 0)"
  by (simp add: getVolume_def getVolumeLinux_def execAsync_def)

section \<open>Requests that change the volume\<close>

text \<open>
  Claim C4. Take a \<^verbatim>\<open>setVolume\<close> request with an integer value \<open>v\<close>, and call \<open>volume\<close>,
  \<open>muted\<close> and \<open>device\<close> what the three queries return once the set-volume command has
  run (on a supported platform each of them returns a reading). The request is handled
  without an error, and apart from the lines logged it does this and nothing else, in this
  order: it runs the platform's set-volume command for \<open>max 0 (min 100 v)\<close>, it calls
  \<^verbatim>\<open>broadcastState\<close>, the broadcast runs its three queries, and the state document with
  those three readings is put on the socket of every client that is open, once each, in the
  order of \<^verbatim>\<open>wss.clients\<close>.
\<close>

theorem setVolume_request_applies_clamp:
  assumes gv: "getVolume sh pf (snd (setVolume sh pf (Number (Num v)) s)) = (Inr volume, s1)"
    and gm: "getMuted sh pf s1 = (Inr muted, s2)"
    and gd: "getOutputDevice sh pf s2 = (Inr device, s3)"
  shows "fst (on_message sh pf (Parsed (JsonDoc (Some ''setVolume'') (Number (Num v)))) ws s) = Inr ()
       \<and> effects (trace (snd (on_message sh pf (Parsed (JsonDoc (Some ''setVolume'') (Number (Num v)))) ws s)))
           = effects (trace s)
               @ [Exec (cmd_setVolume pf (Num (max 0 (min 100 v)))), BroadcastCall]
               @ broadcast_queries pf (wss s)
               @ fanout (StateMsg volume muted device) (wss s)"
proof -
  have sup: "supported pf" using gv by (rule getVolume_Inr_supported)
  let ?x = "run sh (cmd_setVolume pf (Num (max 0 (min 100 v)))) ''Error setting volume:'' s"
  have sv: "setVolume sh pf (Number (Num v)) s = (Inr (), ?x)"
    by (simp add: setVolume_Number[OF sup] clamp_Num)
  have gv': "getVolume sh pf ?x = (Inr volume, s1)" using gv by (simp add: sv)
  show ?thesis
    by (simp add: on_message_def handleMessage_def sv broadcastState_effects[OF gv' gm gd])
qed

theorem setVolume_request_applies_clamp_witness:
  "effects (trace (snd (on_message amixer_host ''linux''
              (Parsed (JsonDoc (Some ''setVolume'') (Number (Num 150)))) phone
              (serving [phone, closing_laptop, tablet] (30, False)))))
     = [Exec ''amixer set Master 100%'', BroadcastCall, Exec ''amixer get Master'',
        Exec ''amixer get Master'', Exec ''amixer'',
        Sent 1 (StateMsg (Num 100) False ''Master''),
        Sent 2 (StateMsg (Num 100) False ''Master'')]"
proof -
  let ?s = "serving [phone, closing_laptop, tablet] (30, False) :: (nat \<times> bool) state"
  let ?x = "snd (setVolume amixer_host ''linux'' (Number (Num 150)) ?s)"
  let ?s1 = "snd (getVolume amixer_host ''linux'' ?x)"
  let ?s2 = "snd (getMuted amixer_host ''linux'' ?s1)"
  let ?s3 = "snd (getOutputDevice amixer_host ''linux'' ?s2)"
  have "fst (getVolume amixer_host ''linux'' ?x) = Inr (Num 100)" by code_simp
  then have gv: "getVolume amixer_host ''linux'' ?x = (Inr (Num 100), ?s1)"
    by (simp add: prod_eq_iff)
  have "fst (getMuted amixer_host ''linux'' ?s1) = Inr False" by code_simp
  then have gm: "getMuted amixer_host ''linux'' ?s1 = (Inr False, ?s2)"
    by (simp add: prod_eq_iff)
  have "fst (getOutputDevice amixer_host ''linux'' ?s2) = Inr ''Master''" by code_simp
  then have gd: "getOutputDevice amixer_host ''linux'' ?s2 = (Inr ''Master'', ?s3)"
    by (simp add: prod_eq_iff)
  have c: "cmd_setVolume ''linux'' (Num (max 0 (min 100 150))) = ''amixer set Master 100%''"
    by code_simp
  have q: "broadcast_queries ''linux'' (Some [phone, closing_laptop, tablet])
             = [Exec ''amixer get Master'', Exec ''amixer get Master'', Exec ''amixer'']"
    by (simp add: broadcast_queries_def cmd_getVolume_def cmd_getMuted_def
        cmd_getOutputDevice_def cmd_getVolumeLinux_def cmd_getMutedLinux_def
        cmd_getOutputDeviceLinux_def)
  have f: "fanout (StateMsg (Num 100) False ''Master'') (Some [phone, closing_laptop, tablet])
             = [Sent 1 (StateMsg (Num 100) False ''Master''),
                Sent 2 (StateMsg (Num 100) False ''Master'')]"
    by (simp add: fanout_def is_open_def frame_event_def phone_def closing_laptop_def tablet_def)
  have w: "wss ?s = Some [phone, closing_laptop, tablet]" "trace ?s = []"
    by (simp_all add: serving_def initial_def)
  show ?thesis
    using setVolume_request_applies_clamp[OF gv gm gd, of phone, THEN conjunct2]
    by (simp only: w c q f effects_Nil append_Nil append_Cons)
qed

text \<open>
  Claim C5. When the backend reports the volume \<open>c\<close>, an \<^verbatim>\<open>increaseVolume\<close> request with an
  integer delta \<open>d\<close> first runs the platform's get-volume command, then the set-volume
  command for \<open>max 0 (min 100 (c + d))\<close>, then calls \<^verbatim>\<open>broadcastState\<close>; a
  \<^verbatim>\<open>decreaseVolume\<close> request does the same with \<open>c - d\<close>. The snapshot \<^verbatim>\<open>lastVolume\<close>
  plays no part. The witness runs the two cases of the specification: 95 plus 10 sets 100,
  and 5 minus 10 sets 0.
\<close>

theorem adjust_request_applies_clamp:
  assumes gv: "getVolume sh pf s = (Inr (Num c), s1)"
  shows "calls (trace (snd (on_message sh pf
              (Parsed (JsonDoc (Some ''increaseVolume'') (Number (Num d)))) ws s)))
           = calls (trace s) @ [Exec (cmd_getVolume pf),
                                Exec (cmd_setVolume pf (Num (max 0 (min 100 (c + d))))),
                                BroadcastCall] @ broadcast_queries pf (wss s)
       \<and> calls (trace (snd (on_message sh pf
              (Parsed (JsonDoc (Some ''decreaseVolume'') (Number (Num d)))) ws s)))
           = calls (trace s) @ [Exec (cmd_getVolume pf),
                                Exec (cmd_setVolume pf (Num (max 0 (min 100 (c - d))))),
                                BroadcastCall] @ broadcast_queries pf (wss s)"
proof -
  have sup: "supported pf" using gv by (rule getVolume_Inr_supported)
  have g: "getVolume sh pf s = (Inr (Num c), run sh (cmd_getVolume pf) ''Error getting volume:'' s)"
    by (rule getVolume_at[OF gv]) simp
  have down: "min 100 (max 0 (c - d)) = max 0 (min 100 (c - d))" by linarith
  show ?thesis
    by (simp add: on_message_def handleMessage_def g setVolume_Number[OF sup]
        broadcastState_supported[OF sup] down)
qed

theorem adjust_request_applies_clamp_witness:
  "calls (trace (snd (on_message amixer_host ''linux''
              (Parsed (JsonDoc (Some ''increaseVolume'') (Number (Num 10)))) phone
              (serving [phone] (95, False)))))
     = [Exec ''amixer get Master'', Exec ''amixer set Master 100%'', BroadcastCall,
        Exec ''amixer get Master'', Exec ''amixer get Master'', Exec ''amixer'']
   \<and> calls (trace (snd (on_message amixer_host ''linux''
              (Parsed (JsonDoc (Some ''decreaseVolume'') (Number (Num 10)))) phone
              (serving [phone] (5, False)))))
     = [Exec ''amixer get Master'', Exec ''amixer set Master 0%'', BroadcastCall,
        Exec ''amixer get Master'', Exec ''amixer get Master'', Exec ''amixer'']"
proof -
  have f95: "fst (getVolume amixer_host ''linux'' (serving [phone] (95, False))) = Inr (Num 95)"
    by code_simp
  have f5: "fst (getVolume amixer_host ''linux'' (serving [phone] (5, False))) = Inr (Num 5)"
    by code_simp
  have h95: "getVolume amixer_host ''linux'' (serving [phone] (95, False))
    = (Inr (Num 95), snd (getVolume amixer_host ''linux'' (serving [phone] (95, False))))"
    using f95 by (simp add: prod_eq_iff)
  have h5: "getVolume amixer_host ''linux'' (serving [phone] (5, False))
    = (Inr (Num 5), snd (getVolume amixer_host ''linux'' (serving [phone] (5, False))))"
    using f5 by (simp add: prod_eq_iff)
  have c100: "cmd_setVolume ''linux'' (Num 100) = ''amixer set Master 100%''" by code_simp
  have c0: "cmd_setVolume ''linux'' (Num 0) = ''amixer set Master 0%''" by code_simp
  have q: "broadcast_queries ''linux'' (Some [phone])
             = [Exec ''amixer get Master'', Exec ''amixer get Master'', Exec ''amixer'']"
    by (simp add: broadcast_queries_def cmd_getVolume_def cmd_getMuted_def
        cmd_getOutputDevice_def cmd_getVolumeLinux_def cmd_getMutedLinux_def
        cmd_getOutputDeviceLinux_def)
  have g: "cmd_getVolume ''linux'' = ''amixer get Master''"
    by (simp add: cmd_getVolume_def cmd_getVolumeLinux_def)
  show ?thesis
    using adjust_request_applies_clamp[OF h95, of 10 phone]
      adjust_request_applies_clamp[OF h5, of 10 phone]
    by (simp add: c100 c0 q g serving_def initial_def)
qed


section \<open>Mute requests\<close>

text \<open>
  Claim C6 says that two \<^verbatim>\<open>toggleMute\<close> requests in sequence leave the mute state as it
  was. Nothing makes the second callback wait for the first: when the second message arrives
  while the first callback awaits its query, both callbacks read the same state and both
  apply its negation. On a muted Linux mixer the two requests run the unmute command twice,
  and the mixer ends unmuted.
\<close>

theorem overlapping_toggles_counterexample:
  "calls (trace (overlapped_toggleMute amixer_host ''linux'' phone tablet
                   (serving [phone, tablet] (30, True))))
     = [Exec ''amixer get Master'', Exec ''amixer get Master'',
        Exec ''amixer set Master unmute'', Exec ''amixer set Master unmute'',
        BroadcastCall, Exec ''amixer get Master'', Exec ''amixer get Master'', Exec ''amixer'',
        BroadcastCall, Exec ''amixer get Master'', Exec ''amixer get Master'', Exec ''amixer'']
   \<and> os (overlapped_toggleMute amixer_host ''linux'' phone tablet
            (serving [phone, tablet] (30, True))) = (30, False)"
  by code_simp

text \<open>
  Claim C6, as amended. Let the second \<^verbatim>\<open>toggleMute\<close> message be handled after the callback
  of the first has run to its end. Let the backend report the mute state \<open>m\<close>, and let it
  report \<open>\<not> m\<close> after the first request has been handled (it took the command, and
  nothing else changed the switch). Then the two requests run, in this order: the get-mute
  command, the set-mute command for \<open>\<not> m\<close>, a broadcast, the get-mute command again, the
  set-mute command for \<open>m\<close>, a broadcast. The state applied last is \<open>m\<close>.
\<close>

theorem toggleMute_twice_restores:
  assumes gm: "getMuted sh pf s = (Inr m, s1)"
    and echo: "fst (getMuted sh pf (snd (on_message sh pf
                  (Parsed (JsonDoc (Some ''toggleMute'') v1)) ws s))) = Inr (\<not> m)"
  shows "calls (trace (snd (on_message sh pf (Parsed (JsonDoc (Some ''toggleMute'') v2)) ws
                        (snd (on_message sh pf (Parsed (JsonDoc (Some ''toggleMute'') v1)) ws s)))))
           = calls (trace s)
               @ [Exec (cmd_getMuted pf), Exec (cmd_setMuted pf (\<not> m)), BroadcastCall]
               @ broadcast_queries pf (wss s)
               @ [Exec (cmd_getMuted pf), Exec (cmd_setMuted pf m), BroadcastCall]
               @ broadcast_queries pf (wss s)"
proof -
  have sup: "supported pf"
    using gm by (auto simp: getMuted_def supported_def split: if_splits)
  let ?set1 = "run sh (cmd_setMuted pf (\<not> m)) ''Error setting mute state:''
                 (run sh (cmd_getMuted pf) ''Error getting mute state:'' s)"
  let ?t1 = "broadcastState sh pf ?set1"
  have g: "getMuted sh pf s = (Inr m, run sh (cmd_getMuted pf) ''Error getting mute state:'' s)"
    by (rule getMuted_at[OF gm]) simp
  have first: "on_message sh pf (Parsed (JsonDoc (Some ''toggleMute'') v1)) ws s = (Inr (), ?t1)"
    by (simp add: on_message_def handleMessage_def g setMuted_supported[OF sup])
  obtain m' where g': "getMuted sh pf ?t1
      = (Inr m', run sh (cmd_getMuted pf) ''Error getting mute state:'' ?t1)"
    using getMuted_supported[OF sup] by blast
  have "m' = (\<not> m)" using echo g' by (simp add: first)
  with g' have g2: "getMuted sh pf ?t1
      = (Inr (\<not> m), run sh (cmd_getMuted pf) ''Error getting mute state:'' ?t1)"
    by simp
  show ?thesis
    by (simp add: first)
       (simp add: on_message_def handleMessage_def g2 setMuted_supported[OF sup]
          broadcastState_supported[OF sup])
qed

theorem toggleMute_twice_restores_witness:
  "calls (trace (snd (on_message amixer_host ''linux'' (Parsed (JsonDoc (Some ''toggleMute'') Undefined)) phone
            (snd (on_message amixer_host ''linux'' (Parsed (JsonDoc (Some ''toggleMute'') Undefined)) phone
                    (serving [phone] (30, True)))))))
     = [Exec ''amixer get Master'', Exec ''amixer set Master unmute'', BroadcastCall,
        Exec ''amixer get Master'', Exec ''amixer get Master'', Exec ''amixer'',
        Exec ''amixer get Master'', Exec ''amixer set Master mute'', BroadcastCall,
        Exec ''amixer get Master'', Exec ''amixer get Master'', Exec ''amixer'']"
proof -
  let ?s = "serving [phone] (30, True) :: (nat \<times> bool) state"
  have f: "fst (getMuted amixer_host ''linux'' ?s) = Inr True"
    by code_simp
  have h1: "getMuted amixer_host ''linux'' ?s = (Inr True, snd (getMuted amixer_host ''linux'' ?s))"
    using f by (simp add: prod_eq_iff)
  have h2: "fst (getMuted amixer_host ''linux'' (snd (on_message amixer_host ''linux''
                  (Parsed (JsonDoc (Some ''toggleMute'') Undefined)) phone ?s))) = Inr (\<not> True)"
    by code_simp
  have q: "broadcast_queries ''linux'' (Some [phone])
             = [Exec ''amixer get Master'', Exec ''amixer get Master'', Exec ''amixer'']"
    by (simp add: broadcast_queries_def cmd_getVolume_def cmd_getMuted_def
        cmd_getOutputDevice_def cmd_getVolumeLinux_def cmd_getMutedLinux_def
        cmd_getOutputDeviceLinux_def)
  have c: "cmd_getMuted ''linux'' = ''amixer get Master''"
    "cmd_setMuted ''linux'' True = ''amixer set Master mute''"
    "cmd_setMuted ''linux'' False = ''amixer set Master unmute''"
    by (simp_all add: cmd_getMuted_def cmd_getMutedLinux_def cmd_setMuted_def cmd_setMutedLinux_def)
  show ?thesis
    using toggleMute_twice_restores[OF h1 h2, of Undefined]
    by (simp add: q c serving_def initial_def)
qed

section \<open>Broadcasts\<close>

text \<open>
  Claim C2. Let the server be up with clients of distinct identity, and let the backend
  report \<open>volume\<close>, \<open>muted\<close> and \<open>device\<close>. Then \<^verbatim>\<open>broadcastState\<close> delivers the state
  document exactly once to every client that is open and whose link carries the frame, and
  nothing to a client that is not open (closing, for one). This holds for each client
  whatever the state of the others: a client that is closing, or whose link loses the
  frame, does not keep the document from the rest.
\<close>

theorem broadcast_reaches_each_open_client:
  assumes w: "wss s = Some cs"
    and d: "distinct (map cid cs)"
    and gv: "getVolume sh pf s = (Inr volume, s1)"
    and gm: "getMuted sh pf s1 = (Inr muted, s2)"
    and gd: "getOutputDevice sh pf s2 = (Inr device, s3)"
  shows "\<forall>c\<in>set cs.
           (readyState c = OPEN \<and> link_up c \<longrightarrow>
              frames_to (cid c) (trace (broadcastState sh pf s))
                = frames_to (cid c) (trace s) @ [StateMsg volume muted device])
         \<and> (readyState c \<noteq> OPEN \<longrightarrow>
              frames_to (cid c) (trace (broadcastState sh pf s)) = frames_to (cid c) (trace s))"
proof
  fix c assume c: "c \<in> set cs"
  have t: "frames_to (cid c) (trace (broadcastState sh pf s))
             = frames_to (cid c) (trace s)
                 @ frames_to (cid c) (map (frame_event (StateMsg volume muted device)) (filter is_open cs))"
    by (simp add: broadcastState_Some[OF w gv gm gd] Let_def)
  have only: "\<And>c'. c' \<in> set cs \<Longrightarrow> cid c' = cid c \<Longrightarrow> c' = c"
    using d c by (meson distinct_map inj_onD)
  have open_up: "readyState c = OPEN \<and> link_up c \<Longrightarrow>
      \<exists>c'\<in>set cs. cid c' = cid c \<and> is_open c' \<and> link_up c'"
    using c by (auto simp: is_open_def)
  have not_open: "readyState c \<noteq> OPEN \<Longrightarrow>
      \<not> (\<exists>c'\<in>set cs. cid c' = cid c \<and> is_open c' \<and> link_up c')"
    using only by (auto simp: is_open_def)
  show "(readyState c = OPEN \<and> link_up c \<longrightarrow>
              frames_to (cid c) (trace (broadcastState sh pf s))
                = frames_to (cid c) (trace s) @ [StateMsg volume muted device])
         \<and> (readyState c \<noteq> OPEN \<longrightarrow>
              frames_to (cid c) (trace (broadcastState sh pf s)) = frames_to (cid c) (trace s))"
  proof (intro conjI impI)
    assume a: "readyState c = OPEN \<and> link_up c"
    have "frames_to (cid c) (map (frame_event (StateMsg volume muted device)) (filter is_open cs))
            = [StateMsg volume muted device]"
      unfolding frames_to_fanout[OF d] using open_up[OF a] by (rule if_P)
    then show "frames_to (cid c) (trace (broadcastState sh pf s))
                = frames_to (cid c) (trace s) @ [StateMsg volume muted device]"
      by (simp only: t)
  next
    assume b: "readyState c \<noteq> OPEN"
    have "frames_to (cid c) (map (frame_event (StateMsg volume muted device)) (filter is_open cs))
            = []"
      unfolding frames_to_fanout[OF d] using not_open[OF b] by (rule if_not_P)
    then show "frames_to (cid c) (trace (broadcastState sh pf s)) = frames_to (cid c) (trace s)"
      by (simp only: t append_Nil2)
  qed
qed

theorem broadcast_reaches_each_open_client_witness:
  "frames_to 2 (trace (broadcastState amixer_host ''linux''
                         (serving [phone, closing_laptop, dropped_tv, tablet] (30, False))))
     = [StateMsg (Num 30) False ''Master'']
   \<and> frames_to 3 (trace (broadcastState amixer_host ''linux''
                         (serving [phone, closing_laptop, dropped_tv, tablet] (30, False))))
     = []"
proof -
  let ?s = "serving [phone, closing_laptop, dropped_tv, tablet] (30, False) :: (nat \<times> bool) state"
  let ?s1 = "snd (getVolume amixer_host ''linux'' ?s)"
  let ?s2 = "snd (getMuted amixer_host ''linux'' ?s1)"
  let ?s3 = "snd (getOutputDevice amixer_host ''linux'' ?s2)"
  have w: "wss ?s = Some [phone, closing_laptop, dropped_tv, tablet]"
    by (simp add: serving_def)
  have d: "distinct (map cid [phone, closing_laptop, dropped_tv, tablet])"
    by (simp add: phone_def closing_laptop_def dropped_tv_def tablet_def)
  have "fst (getVolume amixer_host ''linux'' ?s) = Inr (Num 30)" by code_simp
  then have gv: "getVolume amixer_host ''linux'' ?s = (Inr (Num 30), ?s1)"
    by (simp add: prod_eq_iff)
  have "fst (getMuted amixer_host ''linux'' ?s1) = Inr False" by code_simp
  then have gm: "getMuted amixer_host ''linux'' ?s1 = (Inr False, ?s2)"
    by (simp add: prod_eq_iff)
  have "fst (getOutputDevice amixer_host ''linux'' ?s2) = Inr ''Master''" by code_simp
  then have gd: "getOutputDevice amixer_host ''linux'' ?s2 = (Inr ''Master'', ?s3)"
    by (simp add: prod_eq_iff)
  have t: "tablet \<in> set [phone, closing_laptop, dropped_tv, tablet]"
    and l: "closing_laptop \<in> set [phone, closing_laptop, dropped_tv, tablet]" by simp_all
  have e: "trace ?s = []" by (simp add: serving_def initial_def)
  show ?thesis
    using broadcast_reaches_each_open_client[OF w d gv gm gd, THEN bspec, OF t]
      broadcast_reaches_each_open_client[OF w d gv gm gd, THEN bspec, OF l]
    by (simp add: serving_def initial_def tablet_def closing_laptop_def)
qed


section \<open>Polling\<close>

text \<open>
  Claim C3 says that a tick broadcasts nothing when the volume and the mute state it reads
  equal the snapshot, so that no two consecutive ticks broadcast the same unchanged state.
  On a Mac whose \<^verbatim>\<open>osascript\<close> prints \<^verbatim>\<open>missing value\<close> for the volume, two ticks in a
  row read the same state and both broadcast it: the volume read is \<^verbatim>\<open>NaN\<close>, the snapshot
  after the first tick is \<^verbatim>\<open>NaN\<close>, and \<^verbatim>\<open>NaN !== NaN\<close> holds. Client 1 receives the same
  document twice.
\<close>

theorem poll_tick_repeats_NaN_broadcast:
  "frames_to 1 (trace (poll_tick hdmi_mac ''darwin''
                         (poll_tick hdmi_mac ''darwin'' (serving [phone] ()))))
     = [StateMsg NaN False ''HDMI'', StateMsg NaN False ''HDMI'']
   \<and> broadcasts (trace (poll_tick hdmi_mac ''darwin''
                         (poll_tick hdmi_mac ''darwin'' (serving [phone] ())))) = 2
   \<and> lastVolume (poll_tick hdmi_mac ''darwin'' (serving [phone] ())) = Some NaN
   \<and> fst (getVolume hdmi_mac ''darwin'' (poll_tick hdmi_mac ''darwin'' (serving [phone] ())))
       = Inr NaN"
  by code_simp

section \<open>Failures of the backend\<close>

text \<open>
  Claim C1 says that a failing subprocess is reported to the requesting client and that the
  broadcast is then skipped. It is not: on Linux, with every command failing, a \<^verbatim>\<open>setVolume\<close>
  request from client 1 leaves this trace. Each failure is logged by the platform
  function that ran the command; no error document is sent, \<^verbatim>\<open>broadcastState\<close> is called,
  and both clients are sent the default state.
\<close>

theorem backend_failure_counterexample:
  "trace (snd (on_message failing_shell ''linux''
         (Parsed (JsonDoc (Some ''setVolume'') (Number (Num 50)))) phone
         (serving [phone, tablet] ())))
     = [Exec ''amixer set Master 50%'', ConsoleError ''Error setting volume:'',
        BroadcastCall,
        Exec ''amixer get Master'', ConsoleError ''Error getting volume:'',
        Exec ''amixer get Master'', ConsoleError ''Error getting mute state:'',
        Exec ''amixer'', ConsoleError ''Error getting output device:'',
        Sent 1 (StateMsg (Num 0) False ''Master''),
        Sent 2 (StateMsg (Num 0) False ''Master'')]"
  by code_simp

text \<open>
  The same on a host where only the command that changes the mixer fails: the failure is
  logged, and both clients are sent the volume that was not changed.
\<close>

lemma only_the_mutating_command_fails:
  "trace (snd (on_message readonly_mixer ''linux''
         (Parsed (JsonDoc (Some ''setVolume'') (Number (Num 50)))) phone
         (serving [phone, tablet] (30, False))))
     = [Exec ''amixer set Master 50%'', ConsoleError ''Error setting volume:'',
        BroadcastCall,
        Exec ''amixer get Master'', Exec ''amixer get Master'', Exec ''amixer'',
        Sent 1 (StateMsg (Num 30) False ''Master''),
        Sent 2 (StateMsg (Num 30) False ''Master'')]"
  by code_simp

text \<open>
  Claim C1, as amended. Take one of the six requests that change the backend, with a
  \<^verbatim>\<open>value\<close> whose conversion to a primitive value does not throw.

  On a supported platform, whatever each command does on the host: the callback returns
  normally, no error document is put on any socket, \<^verbatim>\<open>broadcastState\<close> is called exactly
  once, and every command of the request that fails, the one that changes the backend as
  well as the queries before and after it, is followed at once by the line its platform
  function logs.

  On any other platform the backend call throws: the request of an open client is logged and
  answered with the error document \<^verbatim>\<open>Unsupported platform\<close> naming the platform, and nothing
  else happens; \<^verbatim>\<open>broadcastState\<close> is not called.
\<close>

theorem backend_failure_is_logged_not_reported:
  assumes mut: "action \<in> {Some ''setVolume'', Some ''increaseVolume'', Some ''decreaseVolume'',
                            Some ''mute'', Some ''unmute'', Some ''toggleMute''}"
    and cv: "converts v"
  shows "(supported pf \<longrightarrow>
            fst (on_message sh pf (Parsed (JsonDoc action v)) ws s) = Inr ()
          \<and> error_frames (trace (snd (on_message sh pf (Parsed (JsonDoc action v)) ws s)))
              = error_frames (trace s)
          \<and> broadcasts (trace (snd (on_message sh pf (Parsed (JsonDoc action v)) ws s)))
              = Suc (broadcasts (trace s))
          \<and> failures_logged sh (os s)
              (new_events s (snd (on_message sh pf (Parsed (JsonDoc action v)) ws s))))
       \<and> (\<not> supported pf \<and> readyState ws = OPEN \<longrightarrow>
            on_message sh pf (Parsed (JsonDoc action v)) ws s
              = (Inr (), s\<lparr>trace := trace s @ [ConsoleError ''Error handling message:'',
                             frame_event (ErrorMsg (''Unsupported platform: '' @ pf)) ws]\<rparr>))"
proof (intro conjI impI)
  assume sup: "supported pf"
  obtain x where x: "on_message sh pf (Parsed (JsonDoc action v)) ws s
                       = (Inr (), broadcastState sh pf x)"
      "error_frames (trace x) = error_frames (trace s)"
      "broadcasts (trace x) = broadcasts (trace s)"
      "audited sh s x"
    using mutation_shape[OF sup mut cv, of sh ws s] by blast
  show "fst (on_message sh pf (Parsed (JsonDoc action v)) ws s) = Inr ()"
    by (simp add: x(1))
  show "error_frames (trace (snd (on_message sh pf (Parsed (JsonDoc action v)) ws s)))
          = error_frames (trace s)"
    by (simp add: x(1) x(2) broadcastState_supported[OF sup])
  show "broadcasts (trace (snd (on_message sh pf (Parsed (JsonDoc action v)) ws s)))
          = Suc (broadcasts (trace s))"
    by (simp add: x(1) x(3) broadcastState_supported[OF sup])
  have "audited sh s (broadcastState sh pf x)"
    by (rule audited_trans[OF x(4) audited_broadcastState[OF sup]])
  then show "failures_logged sh (os s)
          (new_events s (snd (on_message sh pf (Parsed (JsonDoc action v)) ws s)))"
    using audited_failures_logged[of sh s "broadcastState sh pf x"] by (simp add: x(1))
next
  assume "\<not> supported pf \<and> readyState ws = OPEN"
  then show "on_message sh pf (Parsed (JsonDoc action v)) ws s
              = (Inr (), s\<lparr>trace := trace s @ [ConsoleError ''Error handling message:'',
                             frame_event (ErrorMsg (''Unsupported platform: '' @ pf)) ws]\<rparr>)"
    using unsupported_shape[OF _ _ mut cv] by blast
qed

theorem backend_failure_is_logged_not_reported_witness:
  "Some ''setVolume'' \<in> {Some ''setVolume'', Some ''increaseVolume'', Some ''decreaseVolume'',
                       Some ''mute'', Some ''unmute'', Some ''toggleMute''}
   \<and> converts (Number (Num 50)) \<and> supported ''linux''
   \<and> fst (readonly_mixer ''amixer set Master 50%'' (30, False)) = ExecError
   \<and> fst (on_message readonly_mixer ''linux''
         (Parsed (JsonDoc (Some ''setVolume'') (Number (Num 50)))) phone
         (serving [phone, tablet] (30, False))) = Inr ()
   \<and> error_frames (trace (snd (on_message readonly_mixer ''linux''
         (Parsed (JsonDoc (Some ''setVolume'') (Number (Num 50)))) phone
         (serving [phone, tablet] (30, False))))) = []
   \<and> broadcasts (trace (snd (on_message readonly_mixer ''linux''
         (Parsed (JsonDoc (Some ''setVolume'') (Number (Num 50)))) phone
         (serving [phone, tablet] (30, False))))) = 1
   \<and> failures_logged readonly_mixer (30, False)
        (trace (snd (on_message readonly_mixer ''linux''
           (Parsed (JsonDoc (Some ''setVolume'') (Number (Num 50)))) phone
           (serving [phone, tablet] (30, False)))))
   \<and> \<not> supported ''freebsd'' \<and> readyState phone = OPEN
   \<and> trace (snd (on_message readonly_mixer ''freebsd''
         (Parsed (JsonDoc (Some ''setVolume'') (Number (Num 50)))) phone
         (serving [phone, tablet] (30, False))))
      = [ConsoleError ''Error handling message:'',
         Sent 1 (ErrorMsg ''Unsupported platform: freebsd'')]"
proof -
  have m: "Some ''setVolume'' \<in> {Some ''setVolume'', Some ''increaseVolume'',
             Some ''decreaseVolume'', Some ''mute'', Some ''unmute'', Some ''toggleMute''}"
    by simp
  have c: "converts (Number (Num 50))" by (simp add: converts_def ToPrimitive_def)
  have w: "supported ''linux''" by (simp add: supported_def)
  have f: "fst (readonly_mixer ''amixer set Master 50%'' (30, False)) = ExecError"
    by (simp add: readonly_mixer_def)
  have n: "\<not> supported ''freebsd''" by (simp add: supported_def)
  have p: "readyState phone = OPEN" by (simp add: phone_def)
  show ?thesis
    using m c w f n p
      backend_failure_is_logged_not_reported[OF m c, of "''linux''" readonly_mixer phone
        "serving [phone, tablet] (30, False)", THEN conjunct1]
      backend_failure_is_logged_not_reported[OF m c, of "''freebsd''" readonly_mixer phone
        "serving [phone, tablet] (30, False)", THEN conjunct2]
    by (simp add: serving_def initial_def frame_event_def phone_def new_events_def)
qed

section \<open>Queries of the backend\<close>

text \<open>
  Claim C9 says that a query whose output cannot be parsed returns the default volume 0.
  On macOS (and likewise on Windows) \<^verbatim>\<open>getVolume\<close> returns \<^verbatim>\<open>parseInt\<close> of the trimmed
  output as it is: for the output \<^verbatim>\<open>missing value\<close> that is \<^verbatim>\<open>NaN\<close>, not 0.
\<close>

theorem getVolume_unparseable_is_NaN:
  "fst (getVolume hdmi_mac ''darwin'' (initial ())) = Inr NaN"
  by code_simp

section \<open>Requests without a usable value\<close>

text \<open>
  What \<^verbatim>\<open>ToNumber\<close> makes of the values a document can carry: some have no number, some
  have one, and an object with a \<^verbatim>\<open>toString\<close> entry of its own cannot be converted.
\<close>

lemma values_without_a_number:
  "ToNumber Undefined = Inr NaN"
  "ToNumber (Str ''abc'') = Inr NaN"
  "ToNumber (Object []) = Inr NaN"
  "ToNumber (Object [''level'']) = Inr NaN"
  "ToNumber (Array [Number (Num 1), Number (Num 2)]) = Inr NaN"
  by code_simp+

lemma values_with_a_number:
  "ToNumber Null = Inr (Num 0)"
  "ToNumber (Bool True) = Inr (Num 1)"
  "ToNumber (Str []) = Inr (Num 0)"
  "ToNumber (Str ''50'') = Inr (Num 50)"
  "ToNumber (Array []) = Inr (Num 0)"
  "ToNumber (Array [Number (Num 5)]) = Inr (Num 5)"
  "ToNumber (Object [''toString'']) = Inl not_primitive"
  by code_simp+




section \<open>Requests the server rejects\<close>

text \<open>
  Claim C8 says that every well-formed message without a recognised action is answered with
  \<^verbatim>\<open>Unknown action\<close>. The message \<^verbatim>\<open>null\<close> is well-formed and has no action, and it is
  answered otherwise: destructuring it throws, the error is logged, and its message is what
  the sender receives.
\<close>

theorem null_message_counterexample:
  "trace (snd (on_message failing_shell ''linux'' (Parsed JsonNull) phone
                 (serving [phone, tablet] ())))
     = [ConsoleError ''Error handling message:'',
        Sent 1 (ErrorMsg (''Cannot destructure property '' @ squote @ ''action'' @ squote
                          @ '' of '' @ squote @ ''data'' @ squote @ '' as it is null.''))]"
  by code_simp

text \<open>
  Claim C8, as amended. A decoded document other than \<^verbatim>\<open>null\<close> whose \<^verbatim>\<open>action\<close> is none
  of the eight recognised strings, sent by an open client, is answered with the error
  document \<^verbatim>\<open>Unknown action\<close> put on that client's socket. Nothing else happens: no command
  is run, \<^verbatim>\<open>broadcastState\<close> is not called, no other client is written to, nothing is
  logged, and the rest of the process state is unchanged. The document \<^verbatim>\<open>null\<close> is answered
  with the message of the \<^verbatim>\<open>TypeError\<close> that destructuring it throws, after one line is
  logged; again nothing else happens.
\<close>

theorem unknown_action_reply:
  assumes "action \<notin> {Some ''setVolume'', Some ''getState'', Some ''increaseVolume'',
                        Some ''decreaseVolume'', Some ''mute'', Some ''unmute'',
                        Some ''toggleMute'', Some ''isMuted''}"
    and "readyState ws = OPEN"
  shows "on_message sh pf (Parsed (JsonDoc action v)) ws s
           = (Inr (), s\<lparr>trace := trace s @ [frame_event (ErrorMsg ''Unknown action'') ws]\<rparr>)
       \<and> on_message sh pf (Parsed JsonNull) ws s
           = (Inr (), s\<lparr>trace := trace s @ [ConsoleError ''Error handling message:'',
                frame_event (ErrorMsg (''Cannot destructure property '' @ squote @ ''action''
                    @ squote @ '' of '' @ squote @ ''data'' @ squote @ '' as it is null.'')) ws]\<rparr>)"
  using assms
  by (simp add: on_message_def handleMessage_def send_def frame_event_def destructure_null_def
      console_error_def)

theorem unknown_action_reply_witness:
  "Some ''bogus'' \<notin> {Some ''setVolume'', Some ''getState'', Some ''increaseVolume'',
                        Some ''decreaseVolume'', Some ''mute'', Some ''unmute'',
                        Some ''toggleMute'', Some ''isMuted''}
   \<and> readyState phone = OPEN
   \<and> trace (snd (on_message failing_shell ''linux'' (Parsed (JsonDoc (Some ''bogus'') Undefined)) phone
               (serving [phone, tablet] ())))
      = [Sent 1 (ErrorMsg ''Unknown action'')]
   \<and> trace (snd (on_message failing_shell ''linux'' (Parsed JsonNull) phone
               (serving [phone, tablet] ())))
      = [ConsoleError ''Error handling message:'',
         Sent 1 (ErrorMsg (''Cannot destructure property '' @ squote @ ''action'' @ squote
                           @ '' of '' @ squote @ ''data'' @ squote @ '' as it is null.''))]"
proof -
  have h1: "Some ''bogus'' \<notin> {Some ''setVolume'', Some ''getState'', Some ''increaseVolume'',
                        Some ''decreaseVolume'', Some ''mute'', Some ''unmute'',
                        Some ''toggleMute'', Some ''isMuted''}" by simp
  have h2: "readyState phone = OPEN" by (simp add: phone_def)
  show ?thesis
    using h1 h2 unknown_action_reply[OF h1 h2, of failing_shell "''linux''" Undefined
        "serving [phone, tablet] ()"]
    by (simp add: serving_def initial_def frame_event_def phone_def)
qed

text \<open>
  Claim C7. When \<^verbatim>\<open>JSON.parse\<close> rejects a message of an open client, the callback returns
  normally; it logs the error and puts the error document with the parser's message on that
  client's socket, and it does nothing else: no other client is written to and the rest of
  the process state, the set of clients included, is unchanged. A message handled afterwards
  has the outcome and adds the events it would have had and added without the malformed one.
\<close>

theorem malformed_message_reply:
  assumes "readyState ws = OPEN"
  shows "on_message sh pf (SyntaxError m) ws s
           = (Inr (), s\<lparr>trace := trace s @ [ConsoleError ''Error handling message:'',
                                             frame_event (ErrorMsg m) ws]\<rparr>)
       \<and> fst (on_message sh pf msg ws (snd (on_message sh pf (SyntaxError m) ws s)))
           = fst (on_message sh pf msg ws s)
       \<and> (\<exists>evs. trace (snd (on_message sh pf msg ws s)) = trace s @ evs
              \<and> trace (snd (on_message sh pf msg ws (snd (on_message sh pf (SyntaxError m) ws s))))
                  = trace (snd (on_message sh pf (SyntaxError m) ws s)) @ evs)"
proof -
  let ?s' = "s\<lparr>trace := trace s @ [ConsoleError ''Error handling message:'',
                                     frame_event (ErrorMsg m) ws]\<rparr>"
  have 1: "on_message sh pf (SyntaxError m) ws s = (Inr (), ?s')"
    using assms by (simp add: on_message_def send_def frame_event_def console_error_def)
  have 2: "fst (on_message sh pf msg ws ?s') = fst (on_message sh pf msg ws s)"
    by (rule on_message_fst_trace)
  have 3: "trace (snd (on_message sh pf msg ws s))
             = trace s @ trace (snd (on_message sh pf msg ws (s\<lparr>trace := []\<rparr>)))"
    by (rule on_message_trace_extends)
  have 4: "trace (snd (on_message sh pf msg ws ?s'))
             = trace ?s' @ trace (snd (on_message sh pf msg ws (s\<lparr>trace := []\<rparr>)))"
    using on_message_trace_extends[of sh pf msg ws ?s'] by simp
  show ?thesis
    using 2 3 4 unfolding 1 snd_conv by blast
qed

theorem malformed_message_reply_witness:
  "readyState phone = OPEN
   \<and> on_message amixer_host ''linux'' (SyntaxError ''Unexpected token h in JSON at position 0'') phone
        (serving [phone, tablet] (30, False))
      = (Inr (), (serving [phone, tablet] (30, False))
                   \<lparr>trace := [ConsoleError ''Error handling message:'',
                              Sent 1 (ErrorMsg ''Unexpected token h in JSON at position 0'')]\<rparr>)
   \<and> fst (on_message amixer_host ''linux'' (Parsed (JsonDoc (Some ''getState'') Undefined)) phone
           (snd (on_message amixer_host ''linux''
                   (SyntaxError ''Unexpected token h in JSON at position 0'') phone
                   (serving [phone, tablet] (30, False)))))
      = Inr ()"
proof -
  have h: "readyState phone = OPEN" by (simp add: phone_def)
  have v: "fst (on_message amixer_host ''linux'' (Parsed (JsonDoc (Some ''getState'') Undefined))
                  phone (serving [phone, tablet] (30, False))) = Inr ()"
    by (simp add: on_message_def handleMessage_def)
  show ?thesis
    using h v malformed_message_reply[OF h, of amixer_host "''linux''"
        "''Unexpected token h in JSON at position 0''" "serving [phone, tablet] (30, False)"
        "Parsed (JsonDoc (Some ''getState'') Undefined)", THEN conjunct2, THEN conjunct1]
      malformed_message_reply[OF h, of amixer_host "''linux''"
        "''Unexpected token h in JSON at position 0''" "serving [phone, tablet] (30, False)"
        "Parsed (JsonDoc (Some ''getState'') Undefined)", THEN conjunct1]
    by (simp add: serving_def initial_def frame_event_def phone_def)
qed


end
